theory Spec2Isabelle
  imports Main "HOL-Library.FSet" "HOL-Library.Sublist"
begin

section \<open>Strings\<close>

text \<open>
  The service works on JavaScript strings. They are modelled as \<^typ>\<open>string\<close>, one
  \<^typ>\<open>char\<close> per code unit, which covers the code units below 256. The white space
  class of the regular expression \<^verbatim>\<open>\s\<close> (and of \<^verbatim>\<open>trim\<close>) contains, in that range,
  the tab, line feed, vertical tab, form feed, carriage return, space and no-break space.
\<close>

definition isSpace :: "char \<Rightarrow> bool" where
  "isSpace c = (of_char c \<in> {9::nat, 10, 11, 12, 13, 32, 160})"

definition isDigit :: "char \<Rightarrow> bool" where
  "isDigit c = (48 \<le> (of_char c :: nat) \<and> (of_char c :: nat) \<le> 57)"

definition isLower :: "char \<Rightarrow> bool" where
  "isLower c = (97 \<le> (of_char c :: nat) \<and> (of_char c :: nat) \<le> 122)"

definition isUpper :: "char \<Rightarrow> bool" where
  "isUpper c = (65 \<le> (of_char c :: nat) \<and> (of_char c :: nat) \<le> 90)"

text \<open>\<^verbatim>\<open>s.startsWith(p)\<close>, \<^verbatim>\<open>s.substring(n)\<close> and \<^verbatim>\<open>s.trim()\<close>.\<close>

definition startsWith :: "string \<Rightarrow> string \<Rightarrow> bool" where
  "startsWith s p = (take (length p) s = p)"

definition substring :: "string \<Rightarrow> nat \<Rightarrow> string" where
  "substring s n = drop n s"

definition trim :: "string \<Rightarrow> string" where
  "trim s = rev (dropWhile isSpace (rev (dropWhile isSpace s)))"

text \<open>
  \<^verbatim>\<open>toLowerCase\<close> on code units below 256: the letters \<^verbatim>\<open>A\<close> to \<^verbatim>\<open>Z\<close> and the
  accented capitals 192 to 222 (but the multiplication sign 215) move up by 32.
\<close>

definition lowerChar :: "char \<Rightarrow> char" where
  "lowerChar c =
     (let n = (of_char c :: nat) in
      if (65 \<le> n \<and> n \<le> 90) \<or> (192 \<le> n \<and> n \<le> 222 \<and> n \<noteq> 215)
      then char_of (n + 32) else c)"

definition toLowerCase :: "string \<Rightarrow> string" where
  "toLowerCase s = map lowerChar s"

text \<open>Decimal digits of a number, as string interpolation prints it.\<close>

fun showNat :: "nat \<Rightarrow> string" where
  "showNat n =
     (if n < 10 then [char_of (48 + n)]
      else showNat (n div 10) @ [char_of (48 + n mod 10)])"

section \<open>Configuration\<close>

text \<open>
  \<^verbatim>\<open>JWT_CONFIG\<close> and \<^verbatim>\<open>SECURITY_CONFIG\<close>. The two signing secrets and the
  \<^verbatim>\<open>NODE_ENV\<close> switch come from the process environment, so they are fields of a
  configuration value; \<open>defaultEnv\<close> holds the fallbacks written in the source. The
  other entries are constants of the source.
\<close>

record Env =
  SECRET :: string
  REFRESH_SECRET :: string
  production :: bool

definition defaultEnv :: Env where
  "defaultEnv =
     \<lparr>SECRET = ''your-super-secret-key-change-in-production'',
      REFRESH_SECRET = ''refresh-secret-key'',
      production = False\<rparr>"

text \<open>
  A time span as the \<^verbatim>\<open>expiresIn\<close> strings of the source write it (\<^verbatim>\<open>'15m'\<close>,
  \<^verbatim>\<open>'24h'\<close>, \<^verbatim>\<open>'7d'\<close>), with its length in seconds.
\<close>

datatype span = Minutes nat | Hours nat | Days nat

fun seconds :: "span \<Rightarrow> nat" where
  "seconds (Minutes n) = n * 60"
| "seconds (Hours n) = n * 3600"
| "seconds (Days n) = n * 86400"

definition ACCESS_TOKEN_EXPIRES :: span where "ACCESS_TOKEN_EXPIRES = Minutes 15"
definition REFRESH_TOKEN_EXPIRES :: span where "REFRESH_TOKEN_EXPIRES = Days 7"
definition VERIFICATION_TOKEN_EXPIRES :: span where "VERIFICATION_TOKEN_EXPIRES = Hours 24"
definition RESET_TOKEN_EXPIRES :: span where "RESET_TOKEN_EXPIRES = Hours 1"
definition ISSUER :: string where "ISSUER = ''petites-annonces-ci''"
definition AUDIENCE :: string where "AUDIENCE = ''petites-annonces-ci-users''"

definition BCRYPT_ROUNDS :: nat where "BCRYPT_ROUNDS = 12"
definition MAX_LOGIN_ATTEMPTS :: nat where "MAX_LOGIN_ATTEMPTS = 5"
definition LOCKOUT_TIME :: nat where "LOCKOUT_TIME = 15 * 60 * 1000"
definition PASSWORD_MIN_LENGTH :: nat where "PASSWORD_MIN_LENGTH = 6"
definition PASSWORD_MAX_LENGTH :: nat where "PASSWORD_MAX_LENGTH = 128"

section \<open>Tokens\<close>

text \<open>
  Identifiers that the data layer generates are opaque to the service; they are
  natural numbers here. Instants are milliseconds since the epoch, as \<^verbatim>\<open>Date.now()\<close>
  gives them; the token library counts in whole seconds.
\<close>

type_synonym ident = nat
type_synonym millis = nat

datatype TokenType = Access | Refresh | Verification | Reset

record TokenPayload =
  p_userId :: ident
  p_email :: string
  p_type :: TokenType
  p_iat :: nat
  p_exp :: nat
  p_iss :: string
  p_aud :: string
  p_jti :: string

text \<open>
  The \<^verbatim>\<open>jsonwebtoken\<close> library is outside the repository. Its tokens are represented
  symbolically: a token is either a payload together with the secret it was signed
  with, or some other string (\<open>Raw\<close>), which no secret verifies. Different tokens are
  different strings. All tokens are signed with the library's default algorithm, the
  one the verifier accepts.
\<close>

datatype token = Jwt TokenPayload string | Raw string

datatype JwtError = TokenExpiredError | JsonWebTokenError

record VerifyOptions =
  issuer :: "string option"
  audience :: "string option"

definition noOptions :: VerifyOptions where
  "noOptions = \<lparr>issuer = None, audience = None\<rparr>"

text \<open>
  \<^verbatim>\<open>jwt.sign(payload, secret, {expiresIn, issuer, audience, jwtid})\<close> at instant
  \<open>now\<close>: the library stamps \<^verbatim>\<open>iat\<close> with the current second and \<^verbatim>\<open>exp\<close> with
  \<^verbatim>\<open>iat\<close> plus the span.
\<close>

definition jwt_sign ::
  "ident \<Rightarrow> string \<Rightarrow> TokenType \<Rightarrow> string \<Rightarrow> span \<Rightarrow> string \<Rightarrow> string \<Rightarrow> string \<Rightarrow> millis \<Rightarrow> token"
where
  "jwt_sign userId email type secret expiresIn iss aud jwtid now =
     Jwt \<lparr>p_userId = userId, p_email = email, p_type = type,
          p_iat = now div 1000, p_exp = now div 1000 + seconds expiresIn,
          p_iss = iss, p_aud = aud, p_jti = jwtid\<rparr> secret"

text \<open>
  \<^verbatim>\<open>jwt.verify(token, secret, options)\<close> at instant \<open>now\<close>, in the library's order:
  the signature, then the expiry (\<^verbatim>\<open>clockTimestamp >= exp\<close>), then the audience and
  the issuer when the options name them.
\<close>

definition jwt_verify :: "token \<Rightarrow> string \<Rightarrow> VerifyOptions \<Rightarrow> millis \<Rightarrow> JwtError + TokenPayload" where
  "jwt_verify tok secret opts now =
     (case tok of
        Raw s \<Rightarrow> Inl JsonWebTokenError
      | Jwt payload key \<Rightarrow>
          if key \<noteq> secret then Inl JsonWebTokenError
          else if now div 1000 \<ge> p_exp payload then Inl TokenExpiredError
          else if audience opts \<noteq> None \<and> audience opts \<noteq> Some (p_aud payload)
            then Inl JsonWebTokenError
          else if issuer opts \<noteq> None \<and> issuer opts \<noteq> Some (p_iss payload)
            then Inl JsonWebTokenError
          else Inr payload)"

section \<open>The data store\<close>

datatype UserStatus = ACTIVE | SUSPENDED | DELETED | PENDING_VERIFICATION

text \<open>
  A row of the \<^verbatim>\<open>users\<close> table, with the columns the authentication code reads or
  writes. The record is built in layers, one per projection the code makes:
  \<open>PublicUser\<close> holds the columns that \<^verbatim>\<open>register\<close> selects, \<open>SessionUser\<close> those
  the request verifier selects, \<open>UserWithoutPassword\<close> what \<^verbatim>\<open>login\<close> returns, and
  \<open>User\<close> is the whole row. A projection is the \<open>truncate\<close> of its layer, so the
  password is not a field of anything a caller receives.
\<close>

record PublicUser =
  u_id :: ident
  u_email :: string
  u_phone :: string
  u_firstName :: string
  u_lastName :: string
  u_avatar :: "string option"
  u_isProfessional :: bool
  u_companyName :: "string option"
  u_region :: "string option"
  u_commune :: "string option"
  u_emailVerified :: bool
  u_phoneVerified :: bool
  u_status :: UserStatus
  u_createdAt :: millis
  u_updatedAt :: millis

record SessionUser = PublicUser +
  u_lastLoginAt :: "millis option"

record UserWithoutPassword = SessionUser +
  u_loginAttempts :: nat
  u_blockedUntil :: "millis option"

record User = UserWithoutPassword +
  u_password :: string

text \<open>A row of \<^verbatim>\<open>refresh_tokens\<close> and a row of \<^verbatim>\<open>logs_activite\<close>.\<close>

record RefreshToken =
  rt_id :: ident
  rt_token :: token
  rt_userId :: ident
  rt_expiresAt :: millis

record LogActivite =
  la_userId :: ident
  la_action :: string

text \<open>What the notification collaborator is asked to send.\<close>

datatype mail = PasswordResetEmail string string token

text \<open>
  Everything the service acts on: the three tables in row order, the counter the
  data layer draws fresh identifiers from, the mails handed to the notification
  collaborator, and the number of password hash comparisons made so far. Calls to the
  data layer are modelled by their effect on the tables; what they raise on the data
  (a unique index, a foreign key, a missing row) is an error value, and outages of
  the database are not modelled. An operation reads the clock once.
\<close>

record World =
  users :: "User list"
  refresh_tokens :: "RefreshToken list"
  logs_activite :: "LogActivite list"
  nextId :: ident
  mails :: "mail list"
  compareCalls :: nat

datatype PrismaError = UniqueConstraint | ForeignKeyConstraint | RecordNotFound

text \<open>
  The errors of the service, one constructor per message of the source:
  \<^item> \<open>InvalidEmailFormat\<close>: \<^verbatim>\<open>Format d'email invalide\<close>;
  \<^item> \<open>InvalidPhone\<close>: \<^verbatim>\<open>Numero de telephone ivoirien invalide\<close>;
  \<^item> \<open>PasswordTooShort\<close>, \<open>PasswordTooLong\<close>, \<open>PasswordNeedsLower\<close>,
    \<open>PasswordNeedsUpper\<close>, \<open>PasswordNeedsDigit\<close>: the messages of
    \<^verbatim>\<open>validatePassword\<close>;
  \<^item> \<open>NameTooShort\<close>: \<^verbatim>\<open>Nom et prenom doivent contenir au moins 2 caracteres\<close>;
  \<^item> \<open>EmailExists\<close>: \<^verbatim>\<open>Un compte avec cet email existe deja\<close>;
  \<^item> \<open>PhoneExists\<close>: \<^verbatim>\<open>Un compte avec ce numero existe deja\<close>;
  \<^item> \<open>IncorrectCredentials\<close>: \<^verbatim>\<open>Email/telephone ou mot de passe incorrect\<close>;
  \<^item> \<open>AccountLocked n\<close>: \<^verbatim>\<open>Compte temporairement bloque. Reessayez dans n minutes.\<close>;
  \<^item> \<open>AccountSuspended\<close>: \<^verbatim>\<open>Votre compte est suspendu. Contactez le support.\<close>;
  \<^item> \<open>AccountDeleted\<close>: \<^verbatim>\<open>Ce compte n'existe plus.\<close>;
  \<^item> \<open>InvalidRefreshToken\<close>: \<^verbatim>\<open>Token de rafraichissement invalide\<close>;
  \<^item> \<open>Prisma e\<close>: an error of the data layer, passed on as it is;
  \<^item> \<open>ReferenceError\<close>: the error that the JavaScript engine raises when an
    expression names a variable that is not bound, passed on as it is
    (\<^verbatim>\<open>throw error instanceof Error ? error : ...\<close>).
  (The source writes the messages with their French accents.)
\<close>

datatype AuthError =
    InvalidEmailFormat
  | InvalidPhone
  | PasswordTooShort
  | PasswordTooLong
  | PasswordNeedsLower
  | PasswordNeedsUpper
  | PasswordNeedsDigit
  | NameTooShort
  | EmailExists
  | PhoneExists
  | IncorrectCredentials
  | AccountLocked nat
  | AccountSuspended
  | AccountDeleted
  | InvalidRefreshToken
  | Prisma PrismaError
  | ReferenceError

subsection \<open>Queries and updates\<close>

text \<open>\<^verbatim>\<open>prisma.user.findUnique({where: {id}})\<close> and \<^verbatim>\<open>{where: {email}}\<close>.\<close>

definition user_findUnique :: "World \<Rightarrow> ident \<Rightarrow> User option" where
  "user_findUnique w i = find (\<lambda>u. u_id u = i) (users w)"

definition user_findUnique_email :: "World \<Rightarrow> string \<Rightarrow> User option" where
  "user_findUnique_email w e = find (\<lambda>u. u_email u = e) (users w)"

text \<open>
  \<^verbatim>\<open>prisma.user.update({where: {id}, data})\<close>: the change \<open>f\<close> is applied to the row
  and \<^verbatim>\<open>updatedAt\<close> is stamped; a missing row is an error.
\<close>

definition user_update :: "millis \<Rightarrow> ident \<Rightarrow> (User \<Rightarrow> User) \<Rightarrow> World \<Rightarrow> PrismaError + World" where
  "user_update now i f w =
     (if list_ex (\<lambda>u. u_id u = i) (users w)
      then Inr (w\<lparr>users := map (\<lambda>u. if u_id u = i then (f u)\<lparr>u_updatedAt := now\<rparr> else u) (users w)\<rparr>)
      else Inl RecordNotFound)"

text \<open>
  \<^verbatim>\<open>prisma.refreshToken\<close>: \<^verbatim>\<open>create\<close> checks the unique index on \<^verbatim>\<open>token\<close> and the
  foreign key to the user, \<^verbatim>\<open>findUnique\<close> looks a token up, \<^verbatim>\<open>delete\<close> removes the
  row of an identifier and fails when there is none, \<^verbatim>\<open>deleteMany\<close> removes the rows
  that satisfy a condition.
\<close>

definition refreshToken_create :: "token \<Rightarrow> ident \<Rightarrow> millis \<Rightarrow> World \<Rightarrow> PrismaError + World" where
  "refreshToken_create tok userId expiresAt w =
     (if list_ex (\<lambda>r. rt_token r = tok) (refresh_tokens w) then Inl UniqueConstraint
      else if \<not> list_ex (\<lambda>u. u_id u = userId) (users w) then Inl ForeignKeyConstraint
      else Inr (w\<lparr>refresh_tokens := refresh_tokens w @
                  [\<lparr>rt_id = nextId w, rt_token = tok, rt_userId = userId, rt_expiresAt = expiresAt\<rparr>],
                nextId := nextId w + 1\<rparr>))"

definition refreshToken_findUnique :: "World \<Rightarrow> token \<Rightarrow> RefreshToken option" where
  "refreshToken_findUnique w tok = find (\<lambda>r. rt_token r = tok) (refresh_tokens w)"

definition refreshToken_delete :: "ident \<Rightarrow> World \<Rightarrow> PrismaError + World" where
  "refreshToken_delete i w =
     (if list_ex (\<lambda>r. rt_id r = i) (refresh_tokens w)
      then Inr (w\<lparr>refresh_tokens := filter (\<lambda>r. rt_id r \<noteq> i) (refresh_tokens w)\<rparr>)
      else Inl RecordNotFound)"

definition refreshToken_deleteMany :: "(RefreshToken \<Rightarrow> bool) \<Rightarrow> World \<Rightarrow> World" where
  "refreshToken_deleteMany cond w =
     w\<lparr>refresh_tokens := filter (\<lambda>r. \<not> cond r) (refresh_tokens w)\<rparr>"

text \<open>
  The constraints the schema puts on the tables: identifiers are unique and older
  than the counter, \<^verbatim>\<open>email\<close>, \<^verbatim>\<open>phone\<close> and \<^verbatim>\<open>token\<close> are unique, and every
  refresh token belongs to a user.
\<close>

definition schema_ok :: "World \<Rightarrow> bool" where
  "schema_ok w =
     (distinct (map u_id (users w)) \<and> distinct (map u_email (users w)) \<and>
      distinct (map u_phone (users w)) \<and>
      distinct (map rt_id (refresh_tokens w)) \<and> distinct (map rt_token (refresh_tokens w)) \<and>
      list_all (\<lambda>u. u_id u < nextId w) (users w) \<and>
      list_all (\<lambda>r. rt_id r < nextId w) (refresh_tokens w) \<and>
      list_all (\<lambda>r. list_ex (\<lambda>u. u_id u = rt_userId r) (users w)) (refresh_tokens w))"


section \<open>The authentication service\<close>

text \<open>
  The password hashing library (\<^verbatim>\<open>bcryptjs\<close>) is outside the repository; the service
  is parameterised by its two functions.
\<close>

record Bcrypt =
  bcrypt_hash :: "string \<Rightarrow> nat \<Rightarrow> string"
  bcrypt_compare :: "string \<Rightarrow> string \<Rightarrow> bool"

record RegisterData =
  rd_firstName :: string
  rd_lastName :: string
  rd_email :: string
  rd_phone :: string
  rd_password :: string
  rd_isProfessional :: "bool option"
  rd_companyName :: "string option"
  rd_region :: "string option"
  rd_commune :: "string option"

record LoginData =
  ld_identifier :: string
  ld_password :: string
  ld_rememberMe :: "bool option"

record AuthTokens =
  at_accessToken :: token
  at_refreshToken :: token
  at_expiresIn :: nat

record 'u AuthResult =
  ar_user :: 'u
  ar_tokens :: AuthTokens

subsection \<open>Validation\<close>

text \<open>
  The email pattern \<^verbatim>\<open>/^[^\s@]+@[^\s@]+\.[^\s@]+$/\<close>: no white space, one \<^verbatim>\<open>@\<close> with
  something before it, and after it a dot that is neither first nor last.
\<close>

definition emailRegex :: "string \<Rightarrow> bool" where
  "emailRegex s =
     (let a = takeWhile (\<lambda>c. c \<noteq> CHR ''@'') s; d = drop (length a + 1) s in
      a \<noteq> [] \<and> length a < length s \<and> list_all (\<lambda>c. \<not> isSpace c) s \<and>
      \<not> list_ex (\<lambda>c. c = CHR ''@'') d \<and>
      list_ex (\<lambda>i. d ! i = CHR ''.'') [1..<length d - 1])"

text \<open>The phone pattern \<^verbatim>\<open>/^(\+225|00225|225)?[0-9]{8,10}$/\<close>.\<close>

definition phoneRegex :: "string \<Rightarrow> bool" where
  "phoneRegex s =
     list_ex (\<lambda>p. startsWith s p \<and>
                 (let r = drop (length p) s in 8 \<le> length r \<and> length r \<le> 10 \<and> list_all isDigit r))
       [''+225'', ''00225'', ''225'', []]"

definition validatePassword :: "Env \<Rightarrow> string \<Rightarrow> AuthError option" where
  "validatePassword env password =
     (if length password < PASSWORD_MIN_LENGTH then Some PasswordTooShort
      else if length password > PASSWORD_MAX_LENGTH then Some PasswordTooLong
      else if production env then
        (if \<not> list_ex isLower password then Some PasswordNeedsLower
         else if \<not> list_ex isUpper password then Some PasswordNeedsUpper
         else if \<not> list_ex isDigit password then Some PasswordNeedsDigit
         else None)
      else None)"

definition validateRegistrationData :: "Env \<Rightarrow> RegisterData \<Rightarrow> AuthError option" where
  "validateRegistrationData env data =
     (if \<not> emailRegex (rd_email data) then Some InvalidEmailFormat
      else if \<not> phoneRegex (rd_phone data) then Some InvalidPhone
      else case validatePassword env (rd_password data) of
        Some e \<Rightarrow> Some e
      | None \<Rightarrow>
          if length (rd_firstName data) < 2 \<or> length (rd_lastName data) < 2
          then Some NameTooShort else None)"

subsection \<open>Phone numbers and lookup\<close>

text \<open>
  \<^verbatim>\<open>normalizePhoneNumber\<close>: white space is removed, then a leading \<^verbatim>\<open>00225\<close> or
  \<^verbatim>\<open>225\<close> is rewritten to \<^verbatim>\<open>+225\<close>, and \<^verbatim>\<open>+225\<close> is put in front of anything that
  does not start with it.
\<close>

definition normalizePhoneNumber :: "string \<Rightarrow> string" where
  "normalizePhoneNumber phone =
     (let normalized = filter (\<lambda>c. \<not> isSpace c) phone in
      if startsWith normalized ''00225'' then ''+225'' @ substring normalized 5
      else if startsWith normalized ''225'' then ''+225'' @ substring normalized 3
      else if \<not> startsWith normalized ''+225'' then ''+225'' @ normalized
      else normalized)"

text \<open>\<^verbatim>\<open>findUserByEmailOrPhone\<close>: the first row whose email or phone matches.\<close>

definition findUserByEmailOrPhone :: "World \<Rightarrow> string \<Rightarrow> string \<Rightarrow> User option" where
  "findUserByEmailOrPhone w email phone =
     find (\<lambda>u. u_email u = trim (toLowerCase email) \<or> u_phone u = normalizePhoneNumber phone)
       (users w)"

subsection \<open>Issuing tokens\<close>

text \<open>
  \<^verbatim>\<open>generateToken\<close>; the identifier that \<^verbatim>\<open>crypto.randomUUID()\<close> draws is the
  argument \<open>jwtid\<close>.
\<close>

definition generateToken ::
  "Env \<Rightarrow> ident \<Rightarrow> string \<Rightarrow> TokenType \<Rightarrow> span \<Rightarrow> string \<Rightarrow> millis \<Rightarrow> token"
where
  "generateToken env userId email type expiresIn jwtid now =
     (let secret = (if type = Refresh then REFRESH_SECRET env else SECRET env) in
      jwt_sign userId email type secret expiresIn ISSUER AUDIENCE jwtid now)"

text \<open>
  \<^verbatim>\<open>generateTokenPair\<close>: an access and a refresh token, and the row that makes the
  refresh token usable. \<^verbatim>\<open>setDate\<close> moves the expiry by whole days, taken as
  86400000 milliseconds each.
\<close>

definition generateTokenPair ::
  "Env \<Rightarrow> millis \<Rightarrow> string \<Rightarrow> string \<Rightarrow> ident \<Rightarrow> string \<Rightarrow> bool \<Rightarrow> World \<Rightarrow>
   (PrismaError + AuthTokens) \<times> World"
where
  "generateTokenPair env now jti1 jti2 userId email rememberMe w =
     (let access = generateToken env userId email Access ACCESS_TOKEN_EXPIRES jti1 now;
          refreshTokenExpires = (if rememberMe then Days 30 else REFRESH_TOKEN_EXPIRES);
          refresh = generateToken env userId email Refresh refreshTokenExpires jti2 now;
          expiresAt = now + (if rememberMe then 30 else 7) * 86400000
      in case refreshToken_create refresh userId expiresAt w of
           Inl e \<Rightarrow> (Inl e, w)
         | Inr w' \<Rightarrow>
             (Inr \<lparr>at_accessToken = access, at_refreshToken = refresh,
                   at_expiresIn = (if rememberMe then 30 * 24 * 60 * 60 * 1000
                                else 7 * 24 * 60 * 60 * 1000)\<rparr>, w'))"

subsection \<open>Account guard\<close>

text \<open>
  \<^verbatim>\<open>checkAccountLockout\<close> raises while \<^verbatim>\<open>blockedUntil\<close> lies in the future; the
  message carries \<^verbatim>\<open>Math.ceil\<close> of the remaining minutes.
\<close>

definition checkAccountLockout :: "millis \<Rightarrow> ident \<Rightarrow> World \<Rightarrow> AuthError option" where
  "checkAccountLockout now userId w =
     (case user_findUnique w userId of
        None \<Rightarrow> None
      | Some u \<Rightarrow>
          (case u_blockedUntil u of
             None \<Rightarrow> None
           | Some blockedUntil \<Rightarrow>
               if blockedUntil > now
               then Some (AccountLocked ((blockedUntil - now + 59999) div 60000))
               else None))"

definition handleFailedLogin :: "millis \<Rightarrow> ident \<Rightarrow> World \<Rightarrow> PrismaError + World" where
  "handleFailedLogin now userId w =
     (let attempts = (case user_findUnique w userId of None \<Rightarrow> 0 | Some u \<Rightarrow> u_loginAttempts u) + 1
      in user_update now userId
           (\<lambda>u. if attempts \<ge> MAX_LOGIN_ATTEMPTS
                then u\<lparr>u_loginAttempts := attempts, u_blockedUntil := Some (now + LOCKOUT_TIME)\<rparr>
                else u\<lparr>u_loginAttempts := attempts\<rparr>) w)"

subsection \<open>Logging and notification\<close>

definition logActivity :: "string \<Rightarrow> ident \<Rightarrow> World \<Rightarrow> World" where
  "logActivity action userId w =
     w\<lparr>logs_activite := logs_activite w @ [\<lparr>la_userId = userId, la_action = action\<rparr>]\<rparr>"

definition sendPasswordResetEmail :: "string \<Rightarrow> string \<Rightarrow> token \<Rightarrow> World \<Rightarrow> World" where
  "sendPasswordResetEmail email firstName tok w =
     w\<lparr>mails := mails w @ [PasswordResetEmail email firstName tok]\<rparr>"

subsection \<open>The name \<^verbatim>\<open>UserStatus\<close>\<close>

text \<open>
  The service module and the middleware module both import \<^verbatim>\<open>UserStatus\<close> with
  \<^verbatim>\<open>import type\<close> (the validation middleware imports it as a value). A type-only
  import is erased from the compiled module, so at run time the name is not bound in
  these two modules, and every evaluation of \<^verbatim>\<open>UserStatus.SUSPENDED\<close>,
  \<^verbatim>\<open>UserStatus.DELETED\<close> or \<^verbatim>\<open>UserStatus.PENDING_VERIFICATION\<close> there raises a
  \<^verbatim>\<open>ReferenceError\<close>. The functions below raise at the first such expression they
  reach; the statements that the source writes after it are never executed and have
  no counterpart here.
\<close>

subsection \<open>Login\<close>

text \<open>
  \<^verbatim>\<open>login\<close>: the lookup, the lockout check, the comparison of the password. After a
  failed comparison the counter is incremented and the login is refused. After a
  successful one the next statement is the test
  \<^verbatim>\<open>user.status === UserStatus.SUSPENDED\<close>, which raises; the \<^verbatim>\<open>catch\<close> of
  \<^verbatim>\<open>login\<close> passes the error on. The reset of the counter, the update of
  \<^verbatim>\<open>lastLoginAt\<close> and the issue of the tokens come after that test, so the
  identifiers \<open>jti1\<close> and \<open>jti2\<close> that the token pair would draw are not used.
\<close>

definition login ::
  "Env \<Rightarrow> Bcrypt \<Rightarrow> millis \<Rightarrow> string \<Rightarrow> string \<Rightarrow> LoginData \<Rightarrow> World \<Rightarrow>
   (AuthError + UserWithoutPassword AuthResult) \<times> World"
where
  "login env bc now jti1 jti2 data w =
     (case findUserByEmailOrPhone w (ld_identifier data) (ld_identifier data) of
        None \<Rightarrow> (Inl IncorrectCredentials, w)
      | Some u \<Rightarrow>
          (case checkAccountLockout now (u_id u) w of
             Some e \<Rightarrow> (Inl e, w)
           | None \<Rightarrow>
               let w1 = w\<lparr>compareCalls := compareCalls w + 1\<rparr> in
               if \<not> bcrypt_compare bc (ld_password data) (u_password u) then
                 (case handleFailedLogin now (u_id u) w1 of
                    Inl e \<Rightarrow> (Inl (Prisma e), w1)
                  | Inr w2 \<Rightarrow> (Inl IncorrectCredentials, w2))
               else (Inl ReferenceError, w1)))"

subsection \<open>Refresh\<close>

text \<open>
  \<^verbatim>\<open>refreshTokens\<close>; whatever fails inside, the caller sees the one message
  \<open>InvalidRefreshToken\<close>. The relation \<^verbatim>\<open>include: {user: true}\<close> is the user row of
  the token's \<^verbatim>\<open>userId\<close>.
\<close>

definition refreshTokens ::
  "Env \<Rightarrow> millis \<Rightarrow> string \<Rightarrow> string \<Rightarrow> token \<Rightarrow> World \<Rightarrow> (AuthError + AuthTokens) \<times> World"
where
  "refreshTokens env now jti1 jti2 tok w =
     (case jwt_verify tok (REFRESH_SECRET env) noOptions now of
        Inl e \<Rightarrow> (Inl InvalidRefreshToken, w)
      | Inr payload \<Rightarrow>
          if p_type payload \<noteq> Refresh then (Inl InvalidRefreshToken, w)
          else
            (case refreshToken_findUnique w tok of
               None \<Rightarrow> (Inl InvalidRefreshToken, w)
             | Some tokenRecord \<Rightarrow>
                 if rt_expiresAt tokenRecord < now then (Inl InvalidRefreshToken, w)
                 else
                   (case user_findUnique w (rt_userId tokenRecord) of
                      None \<Rightarrow> (Inl InvalidRefreshToken, w)
                    | Some u \<Rightarrow>
                        (case generateTokenPair env now jti1 jti2 (rt_userId tokenRecord)
                                (u_email u) False w of
                           (Inl e, w1) \<Rightarrow> (Inl InvalidRefreshToken, w1)
                         | (Inr toks, w1) \<Rightarrow>
                             (case refreshToken_delete (rt_id tokenRecord) w1 of
                                Inl e \<Rightarrow> (Inl InvalidRefreshToken, w1)
                              | Inr w2 \<Rightarrow> (Inr toks, w2))))))"

subsection \<open>Logout\<close>

text \<open>
  A JavaScript string is truthy when it is not empty; an absent argument is not.
\<close>

definition truthy :: "token option \<Rightarrow> bool" where
  "truthy t = (t \<noteq> None \<and> t \<noteq> Some (Raw []))"

definition logout :: "ident \<Rightarrow> token option \<Rightarrow> World \<Rightarrow> World" where
  "logout userId tok w =
     logActivity ''USER_LOGOUT'' userId
       (if truthy tok
        then refreshToken_deleteMany (\<lambda>r. rt_userId r = userId \<and> Some (rt_token r) = tok) w
        else refreshToken_deleteMany (\<lambda>r. rt_userId r = userId) w)"

subsection \<open>Password reset request\<close>

definition requestPasswordReset ::
  "Env \<Rightarrow> millis \<Rightarrow> string \<Rightarrow> string \<Rightarrow> World \<Rightarrow> (AuthError + unit) \<times> World"
where
  "requestPasswordReset env now jti email w =
     (case user_findUnique_email w (trim (toLowerCase email)) of
        None \<Rightarrow> (Inr (), w)
      | Some u \<Rightarrow>
          let resetToken = generateToken env (u_id u) (u_email u) Reset RESET_TOKEN_EXPIRES jti now
          in (Inr (),
              logActivity ''PASSWORD_RESET_REQUESTED'' (u_id u)
                (sendPasswordResetEmail (u_email u) (u_firstName u) resetToken w)))"

subsection \<open>Registration\<close>

text \<open>
  \<^verbatim>\<open>slugExists\<close> counts the users whose first name contains the part of the slug
  before its first hyphen.
\<close>

definition slugExists :: "World \<Rightarrow> string \<Rightarrow> bool" where
  "slugExists w slug =
     (length (filter (\<lambda>u. sublist (takeWhile (\<lambda>c. c \<noteq> CHR ''-'') slug) (u_firstName u)) (users w)) > 0)"

text \<open>
  The loop of \<^verbatim>\<open>generateUniqueSlug\<close> tries \<^verbatim>\<open>base\<close>, \<^verbatim>\<open>base-1\<close>, \<^verbatim>\<open>base-2\<close> and so
  on while \<^verbatim>\<open>slugExists\<close> holds. Nothing bounds it, so its result is optional:
  \<open>None\<close> stands for a loop that never ends.
\<close>

partial_function (option) slugLoop :: "World \<Rightarrow> string \<Rightarrow> string \<Rightarrow> nat \<Rightarrow> string option" where
  "slugLoop w baseSlug slug counter =
     (if slugExists w slug
      then slugLoop w baseSlug (baseSlug @ ''-'' @ showNat counter) (counter + 1)
      else Some slug)"

declare slugLoop.simps [code]

definition generateUniqueSlug :: "World \<Rightarrow> string \<Rightarrow> string \<Rightarrow> string option" where
  "generateUniqueSlug w firstName lastName =
     (let baseSlug = filter (\<lambda>c. isLower c \<or> isDigit c \<or> c = CHR ''-'')
                       (toLowerCase firstName @ ''-'' @ toLowerCase lastName)
      in slugLoop w baseSlug baseSlug 1)"

text \<open>
  \<^verbatim>\<open>register\<close>: the validation, the search for an identity with the same email or
  phone, the hash of the password and the slug loop. The next statement is the call
  of \<^verbatim>\<open>prisma.user.create\<close>; the object it is given is built first, property by
  property, and the property \<^verbatim>\<open>status: UserStatus.PENDING_VERIFICATION\<close> raises
  before the call is made, so that nothing is written, no token is issued and no mail
  is sent. The outer \<open>option\<close> is \<open>None\<close> when the slug loop does not end.
\<close>

definition register ::
  "Env \<Rightarrow> Bcrypt \<Rightarrow> millis \<Rightarrow> string \<Rightarrow> string \<Rightarrow> RegisterData \<Rightarrow> World \<Rightarrow>
   ((AuthError + PublicUser AuthResult) \<times> World) option"
where
  "register env bc now jti1 jti2 data w =
     (case validateRegistrationData env data of
        Some e \<Rightarrow> Some (Inl e, w)
      | None \<Rightarrow>
          (case findUserByEmailOrPhone w (rd_email data) (rd_phone data) of
             Some existingUser \<Rightarrow>
               Some (Inl (if u_email existingUser = rd_email data
                          then EmailExists else PhoneExists), w)
           | None \<Rightarrow>
               let hashedPassword = bcrypt_hash bc (rd_password data) BCRYPT_ROUNDS in
               (case generateUniqueSlug w (rd_firstName data) (rd_lastName data) of
                  None \<Rightarrow> None
                | Some profileSlug \<Rightarrow> Some (Inl ReferenceError, w))))"

section \<open>The controllers\<close>

text \<open>
  The parts of a request that \<^verbatim>\<open>AuthController.logout\<close> can see: the identity the
  request verifier attached, the refresh token of the cookie and of the body, and
  the \<^verbatim>\<open>allDevices\<close> property that the route's documentation gives the body.
\<close>

record LogoutRequest =
  req_user :: "SessionUser option"
  cookies_refreshToken :: "token option"
  body_refreshToken :: "token option"
  body_allDevices :: "bool option"

text \<open>
  The messages of the responses modelled here:
  \<^item> \<open>LogoutDone\<close>: \<^verbatim>\<open>Deconnexion reussie\<close>;
  \<^item> \<open>ResetLinkSent\<close>: \<^verbatim>\<open>Si un compte existe avec cet email, un lien de
    reinitialisation a ete envoye.\<close>;
  \<^item> \<open>ResetRequestFailed\<close>: \<^verbatim>\<open>Erreur lors de la demande de reinitialisation\<close>.
\<close>

datatype message = LogoutDone | ResetLinkSent | ResetRequestFailed

record ApiResponse =
  res_status :: nat
  res_success :: bool
  res_message :: message

text \<open>\<^verbatim>\<open>AuthController.logout\<close>; \<^verbatim>\<open>a || b\<close> is \<open>a\<close> when \<open>a\<close> is truthy.\<close>

definition AuthController_logout :: "LogoutRequest \<Rightarrow> World \<Rightarrow> ApiResponse \<times> World" where
  "AuthController_logout req w =
     (let userId = map_option u_id (req_user req);
          tok = (if truthy (cookies_refreshToken req) then cookies_refreshToken req
                 else body_refreshToken req)
      in (\<lparr>res_status = 200, res_success = True, res_message = LogoutDone\<rparr>,
          (case userId of None \<Rightarrow> w | Some i \<Rightarrow> logout i tok w)))"

text \<open>\<^verbatim>\<open>AuthController.requestPasswordReset\<close>.\<close>

definition AuthController_requestPasswordReset ::
  "Env \<Rightarrow> millis \<Rightarrow> string \<Rightarrow> string \<Rightarrow> World \<Rightarrow> ApiResponse \<times> World"
where
  "AuthController_requestPasswordReset env now jti email w =
     (case requestPasswordReset env now jti email w of
        (Inr u, w') \<Rightarrow> (\<lparr>res_status = 200, res_success = True, res_message = ResetLinkSent\<rparr>, w')
      | (Inl e, w') \<Rightarrow>
          (\<lparr>res_status = 500, res_success = False, res_message = ResetRequestFailed\<rparr>, w'))"

section \<open>The request verifier\<close>

text \<open>
  The state of the middleware module: the set of revoked tokens and the cache of
  users with the instant each entry was stored.
\<close>

record Middleware =
  revokedTokens :: "token fset"
  userCache :: "ident \<rightharpoonup> SessionUser \<times> millis"

definition CACHE_DURATION :: nat where "CACHE_DURATION = 5 * 60 * 1000"

text \<open>
  The \<^verbatim>\<open>Authorization\<close> header: \<open>Bearer t\<close> is the text \<^verbatim>\<open>Bearer\<close>, a space and the
  token \<open>t\<close>; \<open>OtherScheme\<close> is any value that does not start so.
\<close>

datatype authorization = Bearer token | OtherScheme string

text \<open>
  What the middleware does with a request: \<open>Reject status code\<close> is the answer with
  an HTTP status and an error code. The call of the next handler comes after the
  tests of the user's status, which raise, so the middleware makes no other answer.
\<close>

datatype outcome = Reject nat string

text \<open>
  \<^verbatim>\<open>authenticateToken\<close>, in the order of the source: the header, the set of revoked
  tokens, the signature and expiry, the type of the token, the user (from the cache
  when the entry is at most \<open>CACHE_DURATION\<close> old, from the database otherwise, which
  stores the row in the cache). With the user in hand the next statement is the test
  \<^verbatim>\<open>user.status === UserStatus.SUSPENDED\<close>; it raises, and the outer \<^verbatim>\<open>catch\<close> of
  the middleware answers with the status 500 and the code \<^verbatim>\<open>AUTH_INTERNAL_ERROR\<close>.
\<close>

definition authenticateToken ::
  "Env \<Rightarrow> millis \<Rightarrow> authorization option \<Rightarrow> Middleware \<Rightarrow> World \<Rightarrow> outcome \<times> Middleware \<times> World"
where
  "authenticateToken env now authHeader mw w =
     (case (case authHeader of Some (Bearer t) \<Rightarrow> (if t = Raw [] then None else Some t)
                             | _ \<Rightarrow> None) of
        None \<Rightarrow> (Reject 401 ''MISSING_TOKEN'', mw, w)
      | Some tok \<Rightarrow>
          if tok |\<in>| revokedTokens mw then (Reject 401 ''REVOKED_TOKEN'', mw, w)
          else
            (case jwt_verify tok (SECRET env) \<lparr>issuer = Some ISSUER, audience = Some AUDIENCE\<rparr> now of
               Inl TokenExpiredError \<Rightarrow> (Reject 401 ''EXPIRED_TOKEN'', mw, w)
             | Inl JsonWebTokenError \<Rightarrow> (Reject 401 ''MALFORMED_TOKEN'', mw, w)
             | Inr payload \<Rightarrow>
                 if p_type payload \<noteq> Access then (Reject 401 ''WRONG_TOKEN_TYPE'', mw, w)
                 else
                   (case (case userCache mw (p_userId payload) of
                            None \<Rightarrow> None
                          | Some (u, timestamp) \<Rightarrow>
                              if now - timestamp > CACHE_DURATION then None else Some u) of
                      Some u \<Rightarrow> (Reject 500 ''AUTH_INTERNAL_ERROR'', mw, w)
                    | None \<Rightarrow>
                        (case user_findUnique w (p_userId payload) of
                           None \<Rightarrow>
                             (Reject 401 ''USER_NOT_FOUND'',
                              mw\<lparr>revokedTokens := finsert tok (revokedTokens mw),
                                 userCache := (userCache mw)(p_userId payload := None)\<rparr>, w)
                         | Some row \<Rightarrow>
                             (Reject 500 ''AUTH_INTERNAL_ERROR'',
                              mw\<lparr>userCache :=
                                   (userCache mw)(p_userId payload \<mapsto> (SessionUser.truncate row, now))\<rparr>,
                              w)))))"

text \<open>\<^verbatim>\<open>revokeToken\<close>, \<^verbatim>\<open>clearUserCache\<close> and \<^verbatim>\<open>cleanupRevokedTokens\<close>.\<close>

definition revokeToken :: "token \<Rightarrow> Middleware \<Rightarrow> Middleware" where
  "revokeToken tok mw = mw\<lparr>revokedTokens := finsert tok (revokedTokens mw)\<rparr>"

definition clearUserCache :: "ident option \<Rightarrow> Middleware \<Rightarrow> Middleware" where
  "clearUserCache userId mw =
     (case userId of
        Some i \<Rightarrow> mw\<lparr>userCache := (userCache mw)(i := None)\<rparr>
      | None \<Rightarrow> mw\<lparr>userCache := Map.empty\<rparr>)"

definition cleanupRevokedTokens :: "Middleware \<Rightarrow> Middleware" where
  "cleanupRevokedTokens mw =
     (if fcard (revokedTokens mw) > 10000 then mw\<lparr>revokedTokens := {||}\<rparr> else mw)"

text \<open>
  \<^verbatim>\<open>revokeAllUserTokens\<close> drops the user's cache entry and deletes the user's
  refresh tokens. The hourly maintenance runs \<^verbatim>\<open>cleanupRevokedTokens\<close> and then
  sweeps the cache entries older than twice \<open>CACHE_DURATION\<close>.
\<close>

definition revokeAllUserTokens :: "ident \<Rightarrow> Middleware \<Rightarrow> World \<Rightarrow> Middleware \<times> World" where
  "revokeAllUserTokens userId mw w =
     (mw\<lparr>userCache := (userCache mw)(userId := None)\<rparr>,
      refreshToken_deleteMany (\<lambda>r. rt_userId r = userId) w)"

definition maintenance :: "millis \<Rightarrow> Middleware \<Rightarrow> Middleware" where
  "maintenance now mw =
     (let mw1 = cleanupRevokedTokens mw in
      mw1\<lparr>userCache :=
            (\<lambda>i. case userCache mw1 i of
                   None \<Rightarrow> None
                 | Some (u, timestamp) \<Rightarrow>
                     if now - timestamp > CACHE_DURATION * 2 then None else Some (u, timestamp))\<rparr>)"

text \<open>
  What can happen to the middleware between two cleanups: a request is verified (at
  some instant, against the database as it is then), a token is revoked, the tokens
  of a user are revoked, the cache is cleared. \<open>run\<close> applies a sequence of such events.
\<close>

datatype event =
    Request millis "authorization option" World
  | Revoke token
  | RevokeAll ident World
  | ClearCache "ident option"

fun step :: "Env \<Rightarrow> event \<Rightarrow> Middleware \<Rightarrow> Middleware" where
  "step env (Request now authHeader w) mw = fst (snd (authenticateToken env now authHeader mw w))"
| "step env (Revoke tok) mw = revokeToken tok mw"
| "step env (RevokeAll userId w) mw = fst (revokeAllUserTokens userId mw w)"
| "step env (ClearCache userId) mw = clearUserCache userId mw"

fun run :: "Env \<Rightarrow> event list \<Rightarrow> Middleware \<Rightarrow> Middleware" where
  "run env [] mw = mw"
| "run env (e # es) mw = run env es (step env e mw)"


text \<open>
  \<open>unusedJti jwtid w\<close>: no stored refresh token carries the identifier \<open>jwtid\<close>, as
  is the case for an identifier that \<^verbatim>\<open>crypto.randomUUID()\<close> has just drawn.
\<close>

definition unusedJti :: "string \<Rightarrow> World \<Rightarrow> bool" where
  "unusedJti jwtid w =
     list_all (\<lambda>r. case rt_token r of Jwt payload key \<Rightarrow> p_jti payload \<noteq> jwtid | Raw s \<Rightarrow> True)
       (refresh_tokens w)"

section \<open>Example states\<close>

text \<open>
  Concrete states on which the theorems below are evaluated: an empty database, a
  middleware that has revoked nothing and cached nothing, and \<open>filler k\<close>, a set of
  \<open>k\<close> revoked strings.
\<close>

definition emptyWorld :: World where
  "emptyWorld =
     \<lparr>users = [], refresh_tokens = [], logs_activite = [], nextId = 0, mails = [],
      compareCalls = 0\<rparr>"

definition freshMiddleware :: Middleware where
  "freshMiddleware = \<lparr>revokedTokens = {||}, userCache = Map.empty\<rparr>"

definition filler :: "nat \<Rightarrow> token fset" where
  "filler k = (\<lambda>n. Raw (replicate (Suc n) CHR ''x'')) |`| fset_of_list [0..<k]"

text \<open>
  A stand-in for the hashing library on concrete inputs, a registered user, and the
  database that holds only her.
\<close>

definition testBcrypt :: Bcrypt where
  "testBcrypt =
     \<lparr>bcrypt_hash = (\<lambda>password rounds. ''hash:'' @ password),
      bcrypt_compare = (\<lambda>password hash. hash = ''hash:'' @ password)\<rparr>"

definition awa :: User where
  "awa =
     \<lparr>u_id = 7, u_email = ''a@example.ci'', u_phone = ''+2250700000001'',
      u_firstName = ''Awa'', u_lastName = ''Kone'', u_avatar = None,
      u_isProfessional = False, u_companyName = None, u_region = None, u_commune = None,
      u_emailVerified = True, u_phoneVerified = False, u_status = ACTIVE,
      u_createdAt = 0, u_updatedAt = 0, u_lastLoginAt = None,
      u_loginAttempts = 0, u_blockedUntil = None, u_password = ''hash:secret1''\<rparr>"

definition awaWorld :: World where
  "awaWorld = emptyWorld\<lparr>users := [awa], nextId := 8\<rparr>"

definition awaAccess :: token where
  "awaAccess = generateToken defaultEnv 7 ''a@example.ci'' Access ACCESS_TOKEN_EXPIRES ''jti-1'' 0"

text \<open>
  Her account after five failed logins, locked until the instant 900000; and her
  account with three failed logins on the counter.
\<close>

definition lockedWorld :: World where
  "lockedWorld =
     awaWorld\<lparr>users := [awa\<lparr>u_loginAttempts := 5, u_blockedUntil := Some 900000\<rparr>]\<rparr>"

definition triedWorld :: World where
  "triedWorld = awaWorld\<lparr>users := [awa\<lparr>u_loginAttempts := 3\<rparr>]\<rparr>"

text \<open>Login data with her password and with a wrong one, and four failed attempts.\<close>

definition rightLogin :: LoginData where
  "rightLogin = \<lparr>ld_identifier = ''a@example.ci'', ld_password = ''secret1'', ld_rememberMe = None\<rparr>"

definition wrongLogin :: LoginData where
  "wrongLogin = \<lparr>ld_identifier = ''a@example.ci'', ld_password = ''guess'', ld_rememberMe = None\<rparr>"

definition strangerLogin :: LoginData where
  "strangerLogin = \<lparr>ld_identifier = ''b@example.ci'', ld_password = ''guess'', ld_rememberMe = None\<rparr>"

definition fourWrong :: "(millis \<times> string \<times> string \<times> LoginData) list" where
  "fourWrong =
     [(1000, ''a1'', ''b1'', wrongLogin), (2000, ''a2'', ''b2'', wrongLogin),
      (3000, ''a3'', ''b3'', wrongLogin), (4000, ''a4'', ''b4'', wrongLogin)]"

text \<open>
  Two sessions of hers: the refresh tokens of two logins at the instant 0, and the
  database that holds their rows.
\<close>

definition awaRefresh :: token where
  "awaRefresh = generateToken defaultEnv 7 ''a@example.ci'' Refresh REFRESH_TOKEN_EXPIRES ''jti-2'' 0"

definition awaRefresh2 :: token where
  "awaRefresh2 = generateToken defaultEnv 7 ''a@example.ci'' Refresh REFRESH_TOKEN_EXPIRES ''jti-5'' 0"

definition sessionWorld :: World where
  "sessionWorld =
     awaWorld\<lparr>refresh_tokens :=
                [\<lparr>rt_id = 8, rt_token = awaRefresh, rt_userId = 7, rt_expiresAt = 604800000\<rparr>],
              nextId := 9\<rparr>"

definition twoSessions :: World where
  "twoSessions =
     awaWorld\<lparr>refresh_tokens :=
                [\<lparr>rt_id = 8, rt_token = awaRefresh, rt_userId = 7, rt_expiresAt = 604800000\<rparr>,
                 \<lparr>rt_id = 9, rt_token = awaRefresh2, rt_userId = 7, rt_expiresAt = 604800000\<rparr>],
              nextId := 10\<rparr>"

text \<open>
  A logout request of hers that asks for all devices and carries the cookie of the
  first session; and the data of her registration.
\<close>

definition logoutEverywhere :: LogoutRequest where
  "logoutEverywhere =
     \<lparr>req_user = Some (SessionUser.truncate awa), cookies_refreshToken = Some awaRefresh,
      body_refreshToken = None, body_allDevices = Some True\<rparr>"

definition awaData :: RegisterData where
  "awaData =
     \<lparr>rd_firstName = ''Awa'', rd_lastName = ''Kone'', rd_email = ''a@example.ci'',
      rd_phone = ''+2250700000001'', rd_password = ''secret1'', rd_isProfessional = None,
      rd_companyName = None, rd_region = None, rd_commune = None\<rparr>"

text \<open>The data of a second registration, by someone whose first name is part of hers.\<close>

definition waData :: RegisterData where
  "waData =
     \<lparr>rd_firstName = ''Wa'', rd_lastName = ''Toure'', rd_email = ''w@example.ci'',
      rd_phone = ''+2250700000002'', rd_password = ''secret2'', rd_isProfessional = None,
      rd_companyName = None, rd_region = None, rd_commune = None\<rparr>"

section \<open>Properties of phone normalisation\<close>










section \<open>Properties of tokens\<close>

lemma token_payload:
  "generateToken env userId email type ttl jwtid now =
     Jwt \<lparr>p_userId = userId, p_email = email, p_type = type,
          p_iat = now div 1000, p_exp = now div 1000 + seconds ttl,
          p_iss = ISSUER, p_aud = AUDIENCE, p_jti = jwtid\<rparr>
       (if type = Refresh then REFRESH_SECRET env else SECRET env)"
  by (simp add: generateToken_def jwt_sign_def)

text \<open>The definitions that evaluate the example states.\<close>

lemmas eval_defs = findUserByEmailOrPhone_def awaWorld_def emptyWorld_def awa_def
      toLowerCase_def lowerChar_def trim_def isSpace_def char_of_def bit_Suc_0_iff
      normalizePhoneNumber_def startsWith_def substring_def Let_def lockedWorld_def triedWorld_def
      schema_ok_def testBcrypt_def rightLogin_def wrongLogin_def strangerLogin_def fourWrong_def
      sessionWorld_def twoSessions_def awaRefresh_def awaRefresh2_def token_payload
      REFRESH_TOKEN_EXPIRES_def ACCESS_TOKEN_EXPIRES_def defaultEnv_def unusedJti_def
      refreshToken_findUnique_def user_findUnique_def user_findUnique_email_def

section \<open>Properties of the request verifier\<close>

lemma authenticateToken_revoked:
  "tok |\<in>| revokedTokens mw \<Longrightarrow> tok \<noteq> Raw [] \<Longrightarrow>
   authenticateToken env now (Some (Bearer tok)) mw w = (Reject 401 ''REVOKED_TOKEN'', mw, w)"
  by (simp add: authenticateToken_def)

lemma awaAccess_payload:
  "now div 1000 < 900 \<Longrightarrow>
   jwt_verify awaAccess (SECRET defaultEnv) \<lparr>issuer = Some ISSUER, audience = Some AUDIENCE\<rparr> now =
     Inr \<lparr>p_userId = 7, p_email = ''a@example.ci'', p_type = Access, p_iat = 0, p_exp = 900,
          p_iss = ISSUER, p_aud = AUDIENCE, p_jti = ''jti-1''\<rparr>"
  by (simp add: awaAccess_def token_payload jwt_verify_def ACCESS_TOKEN_EXPIRES_def)

lemma awaAccess_expired:
  "900 \<le> now div 1000 \<Longrightarrow>
   jwt_verify awaAccess (SECRET defaultEnv) \<lparr>issuer = Some ISSUER, audience = Some AUDIENCE\<rparr> now =
     Inl TokenExpiredError"
  by (simp add: awaAccess_def token_payload jwt_verify_def ACCESS_TOKEN_EXPIRES_def)

lemma awaAccess_Jwt: "\<exists>p. awaAccess = Jwt p (SECRET defaultEnv)"
  by (simp add: awaAccess_def token_payload)

lemma awaAccess_not_empty: "awaAccess \<noteq> Raw []"
  by (simp add: awaAccess_def token_payload)

subsection \<open>The order of the checks\<close>

text \<open>
  Claim C3, as amended. For a request that carries a bearer token, the verifier looks
  the token up in the set of revoked tokens first: a token in the set is answered
  with \<^verbatim>\<open>REVOKED_TOKEN\<close>, whatever its signature and expiry. Only a token that is not
  in the set is verified: it is answered with \<^verbatim>\<open>EXPIRED_TOKEN\<close> when it has expired,
  with \<^verbatim>\<open>MALFORMED_TOKEN\<close> when it is malformed or wrongly signed, and with
  \<^verbatim>\<open>WRONG_TOKEN_TYPE\<close> when it verifies and its purpose is not access. None of these
  answers changes the state.
\<close>

theorem verifier_check_order:
  assumes "tok \<noteq> Raw []"
  shows "(tok |\<in>| revokedTokens mw \<longrightarrow>
            authenticateToken env now (Some (Bearer tok)) mw w = (Reject 401 ''REVOKED_TOKEN'', mw, w)) \<and>
         (tok |\<notin>| revokedTokens mw \<longrightarrow>
            (case jwt_verify tok (SECRET env) \<lparr>issuer = Some ISSUER, audience = Some AUDIENCE\<rparr> now of
               Inl TokenExpiredError \<Rightarrow>
                 authenticateToken env now (Some (Bearer tok)) mw w = (Reject 401 ''EXPIRED_TOKEN'', mw, w)
             | Inl JsonWebTokenError \<Rightarrow>
                 authenticateToken env now (Some (Bearer tok)) mw w = (Reject 401 ''MALFORMED_TOKEN'', mw, w)
             | Inr payload \<Rightarrow>
                 p_type payload \<noteq> Access \<longrightarrow>
                 authenticateToken env now (Some (Bearer tok)) mw w = (Reject 401 ''WRONG_TOKEN_TYPE'', mw, w)))"
  using assms
  by (simp add: authenticateToken_def split: sum.split JwtError.split)

theorem verifier_check_order_witness:
  "awaAccess \<noteq> Raw [] \<and>
   awaAccess |\<in>| revokedTokens (freshMiddleware\<lparr>revokedTokens := {|awaAccess|}\<rparr>) \<and>
   authenticateToken defaultEnv 60000 (Some (Bearer awaAccess))
       (freshMiddleware\<lparr>revokedTokens := {|awaAccess|}\<rparr>) awaWorld =
     (Reject 401 ''REVOKED_TOKEN'', freshMiddleware\<lparr>revokedTokens := {|awaAccess|}\<rparr>, awaWorld) \<and>
   awaAccess |\<notin>| revokedTokens freshMiddleware \<and>
   authenticateToken defaultEnv 1000000 (Some (Bearer awaAccess)) freshMiddleware awaWorld =
     (Reject 401 ''EXPIRED_TOKEN'', freshMiddleware, awaWorld) \<and>
   Raw ''garbage'' \<noteq> Raw [] \<and> Raw ''garbage'' |\<notin>| revokedTokens freshMiddleware \<and>
   authenticateToken defaultEnv 60000 (Some (Bearer (Raw ''garbage''))) freshMiddleware awaWorld =
     (Reject 401 ''MALFORMED_TOKEN'', freshMiddleware, awaWorld) \<and>
   authenticateToken defaultEnv 60000
       (Some (Bearer (generateToken defaultEnv 7 ''a@example.ci'' Reset RESET_TOKEN_EXPIRES ''jti-3'' 0)))
       freshMiddleware awaWorld =
     (Reject 401 ''WRONG_TOKEN_TYPE'', freshMiddleware, awaWorld)"
proof -
  let ?held = "freshMiddleware\<lparr>revokedTokens := {|awaAccess|}\<rparr>"
  let ?reset = "generateToken defaultEnv 7 ''a@example.ci'' Reset RESET_TOKEN_EXPIRES ''jti-3'' 0"
  have m: "awaAccess |\<in>| revokedTokens ?held" by simp
  have n: "awaAccess |\<notin>| revokedTokens freshMiddleware"
    and g: "Raw ''garbage'' |\<notin>| revokedTokens freshMiddleware"
    and r: "?reset |\<notin>| revokedTokens freshMiddleware"
    by (simp_all add: freshMiddleware_def)
  have ne: "?reset \<noteq> Raw []" "Raw ''garbage'' \<noteq> Raw []" by (simp_all add: token_payload)
  have vr: "jwt_verify ?reset (SECRET defaultEnv) \<lparr>issuer = Some ISSUER, audience = Some AUDIENCE\<rparr> 60000 =
      Inr \<lparr>p_userId = 7, p_email = ''a@example.ci'', p_type = Reset, p_iat = 0, p_exp = 3600,
           p_iss = ISSUER, p_aud = AUDIENCE, p_jti = ''jti-3''\<rparr>"
    by (simp add: token_payload jwt_verify_def RESET_TOKEN_EXPIRES_def)
  have vg: "jwt_verify (Raw ''garbage'') (SECRET defaultEnv)
      \<lparr>issuer = Some ISSUER, audience = Some AUDIENCE\<rparr> 60000 = Inl JsonWebTokenError"
    by (simp add: jwt_verify_def)
  have 1: "authenticateToken defaultEnv 60000 (Some (Bearer awaAccess)) ?held awaWorld =
     (Reject 401 ''REVOKED_TOKEN'', ?held, awaWorld)"
    using verifier_check_order [OF awaAccess_not_empty, of ?held defaultEnv 60000 awaWorld] m
    by simp
  have 2: "authenticateToken defaultEnv 1000000 (Some (Bearer awaAccess)) freshMiddleware awaWorld =
     (Reject 401 ''EXPIRED_TOKEN'', freshMiddleware, awaWorld)"
    using verifier_check_order [OF awaAccess_not_empty, of freshMiddleware defaultEnv 1000000 awaWorld] n
    by (simp add: awaAccess_expired)
  have 3: "authenticateToken defaultEnv 60000 (Some (Bearer (Raw ''garbage''))) freshMiddleware awaWorld =
     (Reject 401 ''MALFORMED_TOKEN'', freshMiddleware, awaWorld)"
    using verifier_check_order [OF ne(2), of freshMiddleware defaultEnv 60000 awaWorld] g
    by (simp add: vg)
  have 4: "authenticateToken defaultEnv 60000 (Some (Bearer ?reset)) freshMiddleware awaWorld =
     (Reject 401 ''WRONG_TOKEN_TYPE'', freshMiddleware, awaWorld)"
    using verifier_check_order [OF ne(1), of freshMiddleware defaultEnv 60000 awaWorld] r
    by (simp add: vr)
  from awaAccess_not_empty m 1 n 2 ne(2) g 3 4 show ?thesis by simp
qed

text \<open>
  The claim as stated fails: a token that the verifier revoked while it was valid
  (its user was not found) and that has expired since is answered with
  \<^verbatim>\<open>REVOKED_TOKEN\<close>, not with \<^verbatim>\<open>EXPIRED_TOKEN\<close>; and so is a malformed string that
  \<^verbatim>\<open>revokeToken\<close> was given.
\<close>

theorem expired_token_reported_revoked_counterexample:
  "authenticateToken defaultEnv 60000 (Some (Bearer awaAccess)) freshMiddleware emptyWorld =
     (Reject 401 ''USER_NOT_FOUND'', freshMiddleware\<lparr>revokedTokens := {|awaAccess|}\<rparr>, emptyWorld) \<and>
   jwt_verify awaAccess (SECRET defaultEnv) \<lparr>issuer = Some ISSUER, audience = Some AUDIENCE\<rparr> 1000000 =
     Inl TokenExpiredError \<and>
   fst (authenticateToken defaultEnv 1000000 (Some (Bearer awaAccess))
          (freshMiddleware\<lparr>revokedTokens := {|awaAccess|}\<rparr>) emptyWorld) =
     Reject 401 ''REVOKED_TOKEN'' \<and>
   jwt_verify (Raw ''garbage'') (SECRET defaultEnv)
       \<lparr>issuer = Some ISSUER, audience = Some AUDIENCE\<rparr> 60000 = Inl JsonWebTokenError \<and>
   fst (authenticateToken defaultEnv 60000 (Some (Bearer (Raw ''garbage'')))
          (revokeToken (Raw ''garbage'') freshMiddleware) emptyWorld) =
     Reject 401 ''REVOKED_TOKEN''"
proof -
  have 1: "authenticateToken defaultEnv 60000 (Some (Bearer awaAccess)) freshMiddleware emptyWorld =
     (Reject 401 ''USER_NOT_FOUND'', freshMiddleware\<lparr>revokedTokens := {|awaAccess|}\<rparr>, emptyWorld)"
    using awaAccess_not_empty
    by (simp add: authenticateToken_def awaAccess_payload freshMiddleware_def user_findUnique_def
        emptyWorld_def)
  have 2: "fst (authenticateToken defaultEnv 1000000 (Some (Bearer awaAccess))
          (freshMiddleware\<lparr>revokedTokens := {|awaAccess|}\<rparr>) emptyWorld) =
     Reject 401 ''REVOKED_TOKEN''"
    by (simp add: authenticateToken_revoked awaAccess_not_empty)
  have 3: "fst (authenticateToken defaultEnv 60000 (Some (Bearer (Raw ''garbage'')))
          (revokeToken (Raw ''garbage'') freshMiddleware) emptyWorld) =
     Reject 401 ''REVOKED_TOKEN''"
    by (simp add: authenticateToken_revoked revokeToken_def)
  have 4: "jwt_verify (Raw ''garbage'') (SECRET defaultEnv)
       \<lparr>issuer = Some ISSUER, audience = Some AUDIENCE\<rparr> 60000 = Inl JsonWebTokenError"
    by (simp add: jwt_verify_def)
  from 1 2 3 4 show ?thesis by (simp add: awaAccess_expired)
qed

subsection \<open>The set of revoked tokens\<close>

lemma step_keeps_revoked: "tok |\<in>| revokedTokens mw \<Longrightarrow> tok |\<in>| revokedTokens (step env e mw)"
proof (cases e)
  case (Request now h w)
  assume "tok |\<in>| revokedTokens mw"
  then show ?thesis unfolding Request
    by (simp add: authenticateToken_def
        split: option.split authorization.split sum.split JwtError.split prod.split)
next
  case (Revoke t)
  assume "tok |\<in>| revokedTokens mw"
  then show ?thesis unfolding Revoke by (simp add: revokeToken_def)
next
  case (RevokeAll i w)
  assume "tok |\<in>| revokedTokens mw"
  then show ?thesis unfolding RevokeAll by (simp add: revokeAllUserTokens_def)
next
  case (ClearCache i)
  assume "tok |\<in>| revokedTokens mw"
  then show ?thesis unfolding ClearCache by (simp add: clearUserCache_def split: option.split)
qed

lemma run_keeps_revoked: "tok |\<in>| revokedTokens mw \<Longrightarrow> tok |\<in>| revokedTokens (run env es mw)"
  by (induction es arbitrary: mw) (simp_all add: step_keeps_revoked)

lemma fcard_filler: "fcard (filler k) = k"
proof -
  have inj: "inj_on (\<lambda>n. Raw (replicate (Suc n) CHR ''x'')) (set [0..<k])"
    by (rule inj_onI) (metis length_replicate token.inject(2) nat.inject)
  have c: "card (set [0..<k]) = k" by simp
  show ?thesis
    unfolding filler_def fcard.rep_eq fimage.rep_eq fset_of_list.rep_eq card_image [OF inj] c ..
qed

lemma Jwt_notin_filler: "Jwt p s |\<notin>| filler k"
  by (auto simp: filler_def)

lemma fcard_finsert_filler: "fcard (finsert (Jwt p s) (filler k)) = Suc k"
  by (simp add: fcard_finsert_disjoint Jwt_notin_filler fcard_filler)

lemma authenticateToken_not_revoked:
  "revokedTokens mw = {||} \<Longrightarrow>
   fst (authenticateToken env now header mw w) \<noteq> Reject 401 ''REVOKED_TOKEN''"
  by (simp add: authenticateToken_def
      split: option.split authorization.split sum.split JwtError.split prod.split)

lemma authenticateToken_fresh_found:
  assumes "tok \<noteq> Raw []" "tok |\<notin>| revokedTokens mw"
    and "jwt_verify tok (SECRET env) \<lparr>issuer = Some ISSUER, audience = Some AUDIENCE\<rparr> now = Inr payload"
    and "p_type payload = Access"
    and "userCache mw (p_userId payload) = None"
    and "user_findUnique w (p_userId payload) = Some row"
  shows "authenticateToken env now (Some (Bearer tok)) mw w =
     (Reject 500 ''AUTH_INTERNAL_ERROR'',
      mw\<lparr>userCache := (userCache mw)(p_userId payload \<mapsto> (SessionUser.truncate row, now))\<rparr>, w)"
  using assms
  by (simp add: authenticateToken_def)

lemma authenticateToken_fresh_not_found:
  assumes "tok \<noteq> Raw []" "tok |\<notin>| revokedTokens mw"
    and "jwt_verify tok (SECRET env) \<lparr>issuer = Some ISSUER, audience = Some AUDIENCE\<rparr> now = Inr payload"
    and "p_type payload = Access"
    and "userCache mw (p_userId payload) = None"
    and "user_findUnique w (p_userId payload) = None"
  shows "authenticateToken env now (Some (Bearer tok)) mw w =
     (Reject 401 ''USER_NOT_FOUND'',
      mw\<lparr>revokedTokens := finsert tok (revokedTokens mw),
         userCache := (userCache mw)(p_userId payload := None)\<rparr>, w)"
  using assms
  by (simp add: authenticateToken_def)

text \<open>
  Claim C10, as amended. The cleanup empties the whole set of revoked tokens when it
  holds more than 10000 entries, and leaves the cache as it is; it changes nothing
  when the set holds at most 10000 entries. After a cleanup that emptied the set no
  request is answered with \<^verbatim>\<open>REVOKED_TOKEN\<close>: a token that was revoked is
  examined like a token never revoked. In particular a token that verifies as an
  unexpired access token, whose user is not cached and still not found, is answered
  with \<^verbatim>\<open>USER_NOT_FOUND\<close> again and put into the set anew. A token in the set is
  answered with \<^verbatim>\<open>REVOKED_TOKEN\<close> after any sequence of requests, revocations and
  cache clearings, that is, until a cleanup empties the set.
\<close>

theorem revocation_reset:
  "(fcard (revokedTokens mw) > 10000 \<longrightarrow>
      cleanupRevokedTokens mw = mw\<lparr>revokedTokens := {||}\<rparr>) \<and>
   (fcard (revokedTokens mw) \<le> 10000 \<longrightarrow> cleanupRevokedTokens mw = mw) \<and>
   (fcard (revokedTokens mw) > 10000 \<longrightarrow>
      fst (authenticateToken env now header (cleanupRevokedTokens mw) w) \<noteq>
        Reject 401 ''REVOKED_TOKEN'') \<and>
   (fcard (revokedTokens mw) > 10000 \<and> tok \<noteq> Raw [] \<and>
    jwt_verify tok (SECRET env) \<lparr>issuer = Some ISSUER, audience = Some AUDIENCE\<rparr> now = Inr payload \<and>
    p_type payload = Access \<and> userCache mw (p_userId payload) = None \<and>
    user_findUnique w (p_userId payload) = None \<longrightarrow>
      authenticateToken env now (Some (Bearer tok)) (cleanupRevokedTokens mw) w =
        (Reject 401 ''USER_NOT_FOUND'',
         mw\<lparr>revokedTokens := {|tok|}, userCache := (userCache mw)(p_userId payload := None)\<rparr>, w)) \<and>
   (tok |\<in>| revokedTokens mw \<and> tok \<noteq> Raw [] \<longrightarrow>
      fst (authenticateToken env now (Some (Bearer tok)) (run env es mw) w) =
        Reject 401 ''REVOKED_TOKEN'')"
proof (intro conjI impI)
  assume "fcard (revokedTokens mw) > 10000"
  then show "cleanupRevokedTokens mw = mw\<lparr>revokedTokens := {||}\<rparr>"
    by (simp add: cleanupRevokedTokens_def)
next
  assume "fcard (revokedTokens mw) \<le> 10000"
  then show "cleanupRevokedTokens mw = mw"
    by (simp add: cleanupRevokedTokens_def)
next
  assume "fcard (revokedTokens mw) > 10000"
  then have "revokedTokens (cleanupRevokedTokens mw) = {||}"
    by (simp add: cleanupRevokedTokens_def)
  then show "fst (authenticateToken env now header (cleanupRevokedTokens mw) w) \<noteq>
        Reject 401 ''REVOKED_TOKEN''"
    by (rule authenticateToken_not_revoked)
next
  assume a: "fcard (revokedTokens mw) > 10000 \<and> tok \<noteq> Raw [] \<and>
    jwt_verify tok (SECRET env) \<lparr>issuer = Some ISSUER, audience = Some AUDIENCE\<rparr> now = Inr payload \<and>
    p_type payload = Access \<and> userCache mw (p_userId payload) = None \<and>
    user_findUnique w (p_userId payload) = None"
  let ?mw = "cleanupRevokedTokens mw"
  from a have c: "?mw = mw\<lparr>revokedTokens := {||}\<rparr>"
    by (simp add: cleanupRevokedTokens_def)
  have n: "tok |\<notin>| revokedTokens ?mw" and u: "userCache ?mw (p_userId payload) = None"
    using a by (simp_all add: c)
  from a have ne: "tok \<noteq> Raw []"
    and v: "jwt_verify tok (SECRET env) \<lparr>issuer = Some ISSUER, audience = Some AUDIENCE\<rparr> now = Inr payload"
    and t: "p_type payload = Access"
    and f: "user_findUnique w (p_userId payload) = None"
    by blast+
  from authenticateToken_fresh_not_found [OF ne n v t u f]
  show "authenticateToken env now (Some (Bearer tok)) ?mw w =
        (Reject 401 ''USER_NOT_FOUND'',
         mw\<lparr>revokedTokens := {|tok|}, userCache := (userCache mw)(p_userId payload := None)\<rparr>, w)"
    by (simp add: c)
next
  assume "tok |\<in>| revokedTokens mw \<and> tok \<noteq> Raw []"
  then show "fst (authenticateToken env now (Some (Bearer tok)) (run env es mw) w) =
        Reject 401 ''REVOKED_TOKEN''"
    by (simp add: authenticateToken_revoked run_keeps_revoked)
qed

theorem revocation_reset_witness:
  "fcard (revokedTokens (freshMiddleware\<lparr>revokedTokens := finsert awaAccess (filler 10000)\<rparr>)) > 10000 \<and>
   cleanupRevokedTokens (freshMiddleware\<lparr>revokedTokens := finsert awaAccess (filler 10000)\<rparr>) =
     freshMiddleware \<and>
   fst (authenticateToken defaultEnv 60000 (Some (Bearer awaAccess))
          (cleanupRevokedTokens (freshMiddleware\<lparr>revokedTokens := finsert awaAccess (filler 10000)\<rparr>))
          awaWorld) \<noteq>
     Reject 401 ''REVOKED_TOKEN'' \<and>
   user_findUnique emptyWorld 7 = None \<and>
   authenticateToken defaultEnv 60000 (Some (Bearer awaAccess))
       (cleanupRevokedTokens (freshMiddleware\<lparr>revokedTokens := finsert awaAccess (filler 10000)\<rparr>))
       emptyWorld =
     (Reject 401 ''USER_NOT_FOUND'', freshMiddleware\<lparr>revokedTokens := {|awaAccess|}\<rparr>, emptyWorld) \<and>
   fcard (revokedTokens (freshMiddleware\<lparr>revokedTokens := {|awaAccess|}\<rparr>)) \<le> 10000 \<and>
   cleanupRevokedTokens (freshMiddleware\<lparr>revokedTokens := {|awaAccess|}\<rparr>) =
     freshMiddleware\<lparr>revokedTokens := {|awaAccess|}\<rparr> \<and>
   fst (authenticateToken defaultEnv 60000 (Some (Bearer awaAccess))
          (run defaultEnv [Revoke (Raw ''other''), ClearCache None]
             (freshMiddleware\<lparr>revokedTokens := {|awaAccess|}\<rparr>)) awaWorld) =
     Reject 401 ''REVOKED_TOKEN''"
proof -
  let ?big = "freshMiddleware\<lparr>revokedTokens := finsert awaAccess (filler 10000)\<rparr>"
  let ?small = "freshMiddleware\<lparr>revokedTokens := {|awaAccess|}\<rparr>"
  let ?p = "\<lparr>p_userId = 7, p_email = ''a@example.ci'', p_type = Access, p_iat = 0, p_exp = 900,
          p_iss = ISSUER, p_aud = AUDIENCE, p_jti = ''jti-1''\<rparr>"
  obtain p where j: "awaAccess = Jwt p (SECRET defaultEnv)" using awaAccess_Jwt by blast
  have big: "fcard (revokedTokens ?big) > 10000"
    by (simp add: j fcard_finsert_filler)
  have small: "fcard (revokedTokens ?small) \<le> 10000"
    by (simp add: fcard_finsert_if fcard_fempty)
  have nr: "awaAccess \<noteq> Raw []" by (simp add: j)
  have cache: "userCache ?big (p_userId ?p) = None" by (simp add: freshMiddleware_def)
  have none: "user_findUnique emptyWorld 7 = None"
    by (simp add: user_findUnique_def emptyWorld_def)
  have member: "awaAccess |\<in>| revokedTokens ?small" by simp
  have fresh: "?big\<lparr>revokedTokens := {||}\<rparr> = freshMiddleware"
    "?big\<lparr>revokedTokens := {|awaAccess|}, userCache := (userCache ?big)(7 := None)\<rparr> = ?small"
    by (simp_all add: freshMiddleware_def)
  note b = revocation_reset [of ?big defaultEnv 60000 "Some (Bearer awaAccess)" awaWorld
      awaAccess ?p "[]"]
  note e = revocation_reset [of ?big defaultEnv 60000 "Some (Bearer awaAccess)" emptyWorld
      awaAccess ?p "[]"]
  note s = revocation_reset [of ?small defaultEnv 60000 "Some (Bearer awaAccess)" awaWorld
      awaAccess ?p "[Revoke (Raw ''other''), ClearCache None]"]
  from b big have "cleanupRevokedTokens ?big = ?big\<lparr>revokedTokens := {||}\<rparr>" by blast
  then have 1: "cleanupRevokedTokens ?big = freshMiddleware" by (simp only: fresh)
  from b big
  have 2: "fst (authenticateToken defaultEnv 60000 (Some (Bearer awaAccess))
          (cleanupRevokedTokens ?big) awaWorld) \<noteq> Reject 401 ''REVOKED_TOKEN''"
    by blast
  have t: "p_type ?p = Access" and none': "user_findUnique emptyWorld (p_userId ?p) = None"
    using none by simp_all
  have v: "jwt_verify awaAccess (SECRET defaultEnv)
      \<lparr>issuer = Some ISSUER, audience = Some AUDIENCE\<rparr> 60000 = Inr ?p"
    by (simp add: awaAccess_payload)
  from e big nr v t cache none'
  have "authenticateToken defaultEnv 60000 (Some (Bearer awaAccess))
       (cleanupRevokedTokens ?big) emptyWorld =
     (Reject 401 ''USER_NOT_FOUND'',
      ?big\<lparr>revokedTokens := {|awaAccess|}, userCache := (userCache ?big)(p_userId ?p := None)\<rparr>,
      emptyWorld)"
    by blast
  then have 3: "authenticateToken defaultEnv 60000 (Some (Bearer awaAccess))
       (cleanupRevokedTokens ?big) emptyWorld =
     (Reject 401 ''USER_NOT_FOUND'', ?small, emptyWorld)"
    using fresh(2) by simp
  from s small member nr
  have 4: "cleanupRevokedTokens ?small = ?small"
    and 5: "fst (authenticateToken defaultEnv 60000 (Some (Bearer awaAccess))
          (run defaultEnv [Revoke (Raw ''other''), ClearCache None] ?small) awaWorld) =
     Reject 401 ''REVOKED_TOKEN''"
    by simp_all
  from big 1 2 none 3 small 4 5 show ?thesis by simp
qed

text \<open>
  The claim as stated fails: with 10000 other entries in the set, the token of an
  identity that does not exist is revoked by the verifier; the cleanup then empties
  the set; the token has not expired, and the next request with it is answered with
  \<^verbatim>\<open>USER_NOT_FOUND\<close>, not accepted.
\<close>

theorem revoked_token_after_cleanup_counterexample:
  "authenticateToken defaultEnv 60000 (Some (Bearer awaAccess))
      (freshMiddleware\<lparr>revokedTokens := filler 10000\<rparr>) emptyWorld =
     (Reject 401 ''USER_NOT_FOUND'',
      freshMiddleware\<lparr>revokedTokens := finsert awaAccess (filler 10000)\<rparr>, emptyWorld) \<and>
   cleanupRevokedTokens (freshMiddleware\<lparr>revokedTokens := finsert awaAccess (filler 10000)\<rparr>) =
     freshMiddleware \<and>
   jwt_verify awaAccess (SECRET defaultEnv) \<lparr>issuer = Some ISSUER, audience = Some AUDIENCE\<rparr> 120000 =
     Inr \<lparr>p_userId = 7, p_email = ''a@example.ci'', p_type = Access, p_iat = 0, p_exp = 900,
          p_iss = ISSUER, p_aud = AUDIENCE, p_jti = ''jti-1''\<rparr> \<and>
   fst (authenticateToken defaultEnv 120000 (Some (Bearer awaAccess)) freshMiddleware emptyWorld) =
     Reject 401 ''USER_NOT_FOUND''"
proof -
  obtain p where j: "awaAccess = Jwt p (SECRET defaultEnv)" using awaAccess_Jwt by blast
  have n: "awaAccess |\<notin>| filler 10000" by (simp add: j Jwt_notin_filler)
  have v: "jwt_verify awaAccess (SECRET defaultEnv) \<lparr>issuer = Some ISSUER, audience = Some AUDIENCE\<rparr> 120000 =
     Inr \<lparr>p_userId = 7, p_email = ''a@example.ci'', p_type = Access, p_iat = 0, p_exp = 900,
          p_iss = ISSUER, p_aud = AUDIENCE, p_jti = ''jti-1''\<rparr>"
    by (simp add: awaAccess_payload)
  have 1: "authenticateToken defaultEnv 60000 (Some (Bearer awaAccess))
      (freshMiddleware\<lparr>revokedTokens := filler 10000\<rparr>) emptyWorld =
     (Reject 401 ''USER_NOT_FOUND'',
      freshMiddleware\<lparr>revokedTokens := finsert awaAccess (filler 10000)\<rparr>, emptyWorld)"
    using n awaAccess_payload [of 60000]
    by (simp add: authenticateToken_def j freshMiddleware_def user_findUnique_def emptyWorld_def)
  have 2: "cleanupRevokedTokens (freshMiddleware\<lparr>revokedTokens := finsert awaAccess (filler 10000)\<rparr>) =
     freshMiddleware"
    by (simp add: cleanupRevokedTokens_def j fcard_finsert_filler freshMiddleware_def)
  have 3: "fst (authenticateToken defaultEnv 120000 (Some (Bearer awaAccess)) freshMiddleware emptyWorld) =
     Reject 401 ''USER_NOT_FOUND''"
    using v
    by (simp add: authenticateToken_def j freshMiddleware_def user_findUnique_def emptyWorld_def)
  from 1 2 v 3 show ?thesis by simp
qed

subsection \<open>The round trip of a token\<close>

text \<open>
  Claim C6, as amended. For every identity, every purpose and every span, the token
  that \<^const>\<open>generateToken\<close> issues at \<open>now\<close>, verified at \<open>now'\<close> with the secret its
  purpose is signed with (the refresh secret for a refresh token, the main secret for
  the others), gives back the payload with the same identity and purpose while the
  clock, in whole seconds as the token library counts, is before the second of issue
  plus the span, and the expiry error from then on; this holds with the options of
  the request verifier and without options, as the service verifies. At the request
  verifier, which verifies with the main secret, a token that is not revoked is
  treated so: an access token within its span passes the checks of the header, the
  signature, the expiry and the purpose, that is, it is answered with none of
  \<^verbatim>\<open>MISSING_TOKEN\<close>, \<^verbatim>\<open>REVOKED_TOKEN\<close>, \<^verbatim>\<open>EXPIRED_TOKEN\<close>, \<^verbatim>\<open>MALFORMED_TOKEN\<close>
  and \<^verbatim>\<open>WRONG_TOKEN_TYPE\<close>, and the identity that the verifier goes on to look for
  is the one the token was issued for: when that identity is neither cached nor
  stored, the answer is \<^verbatim>\<open>USER_NOT_FOUND\<close>, the token is revoked, and the cache
  entry of that identity is dropped; a token of a purpose other than refresh is
  answered with \<^verbatim>\<open>EXPIRED_TOKEN\<close> once its span has passed; a refresh token is
  answered with \<^verbatim>\<open>MALFORMED_TOKEN\<close> at any time when the two secrets differ.
\<close>

theorem token_round_trip:
  "(let tok = generateToken env userId email type ttl jwtid now;
        secret = (if type = Refresh then REFRESH_SECRET env else SECRET env);
        payload = \<lparr>p_userId = userId, p_email = email, p_type = type,
                    p_iat = now div 1000, p_exp = now div 1000 + seconds ttl,
                    p_iss = ISSUER, p_aud = AUDIENCE, p_jti = jwtid\<rparr>
    in jwt_verify tok secret \<lparr>issuer = Some ISSUER, audience = Some AUDIENCE\<rparr> now' =
         (if now' div 1000 < now div 1000 + seconds ttl then Inr payload else Inl TokenExpiredError) \<and>
       jwt_verify tok secret noOptions now' =
         (if now' div 1000 < now div 1000 + seconds ttl then Inr payload else Inl TokenExpiredError) \<and>
       (tok |\<notin>| revokedTokens mw \<and> type = Access \<and> now' div 1000 < now div 1000 + seconds ttl \<longrightarrow>
          fst (authenticateToken env now' (Some (Bearer tok)) mw w) \<notin>
            {Reject 401 ''MISSING_TOKEN'', Reject 401 ''REVOKED_TOKEN'', Reject 401 ''EXPIRED_TOKEN'',
             Reject 401 ''MALFORMED_TOKEN'', Reject 401 ''WRONG_TOKEN_TYPE''}) \<and>
       (tok |\<notin>| revokedTokens mw \<and> type = Access \<and> now' div 1000 < now div 1000 + seconds ttl \<and>
        userCache mw userId = None \<and> user_findUnique w userId = None \<longrightarrow>
          authenticateToken env now' (Some (Bearer tok)) mw w =
            (Reject 401 ''USER_NOT_FOUND'',
             mw\<lparr>revokedTokens := finsert tok (revokedTokens mw),
                userCache := (userCache mw)(userId := None)\<rparr>, w)) \<and>
       (tok |\<notin>| revokedTokens mw \<and> type \<noteq> Refresh \<and> now div 1000 + seconds ttl \<le> now' div 1000 \<longrightarrow>
          authenticateToken env now' (Some (Bearer tok)) mw w = (Reject 401 ''EXPIRED_TOKEN'', mw, w)) \<and>
       (tok |\<notin>| revokedTokens mw \<and> type = Refresh \<and> REFRESH_SECRET env \<noteq> SECRET env \<longrightarrow>
          authenticateToken env now' (Some (Bearer tok)) mw w = (Reject 401 ''MALFORMED_TOKEN'', mw, w)))"
proof -
  let ?tok = "generateToken env userId email type ttl jwtid now"
  let ?secret = "if type = Refresh then REFRESH_SECRET env else SECRET env"
  let ?payload = "\<lparr>p_userId = userId, p_email = email, p_type = type,
                    p_iat = now div 1000, p_exp = now div 1000 + seconds ttl,
                    p_iss = ISSUER, p_aud = AUDIENCE, p_jti = jwtid\<rparr>"
  let ?opts = "\<lparr>issuer = Some ISSUER, audience = Some AUDIENCE\<rparr>"
  have v1: "jwt_verify ?tok ?secret ?opts now' =
         (if now' div 1000 < now div 1000 + seconds ttl then Inr ?payload else Inl TokenExpiredError)"
    and v2: "jwt_verify ?tok ?secret noOptions now' =
         (if now' div 1000 < now div 1000 + seconds ttl then Inr ?payload else Inl TokenExpiredError)"
    by (simp_all add: token_payload jwt_verify_def noOptions_def)
  have ne: "?tok \<noteq> Raw []" by (simp add: token_payload)
  have passes: "fst (authenticateToken env now' (Some (Bearer ?tok)) mw w) \<notin>
            {Reject 401 ''MISSING_TOKEN'', Reject 401 ''REVOKED_TOKEN'', Reject 401 ''EXPIRED_TOKEN'',
             Reject 401 ''MALFORMED_TOKEN'', Reject 401 ''WRONG_TOKEN_TYPE''}"
    if a: "?tok |\<notin>| revokedTokens mw \<and> type = Access \<and> now' div 1000 < now div 1000 + seconds ttl"
  proof -
    from a have nr: "?tok |\<notin>| revokedTokens mw" by blast
    from a v1 have v: "jwt_verify ?tok (SECRET env) ?opts now' = Inr ?payload" by simp
    from a have t: "p_type ?payload = Access" by simp
    from ne nr v t show ?thesis
      by (simp add: authenticateToken_def split: option.split prod.split)
  qed
  have missing: "authenticateToken env now' (Some (Bearer ?tok)) mw w =
            (Reject 401 ''USER_NOT_FOUND'',
             mw\<lparr>revokedTokens := finsert ?tok (revokedTokens mw),
                userCache := (userCache mw)(userId := None)\<rparr>, w)"
    if a: "?tok |\<notin>| revokedTokens mw \<and> type = Access \<and> now' div 1000 < now div 1000 + seconds ttl \<and>
        userCache mw userId = None \<and> user_findUnique w userId = None"
  proof -
    from a have nr: "?tok |\<notin>| revokedTokens mw" by blast
    from a v1 have v: "jwt_verify ?tok (SECRET env) ?opts now' = Inr ?payload" by simp
    from a have t: "p_type ?payload = Access" "userCache mw (p_userId ?payload) = None"
      "user_findUnique w (p_userId ?payload) = None" by simp_all
    from authenticateToken_fresh_not_found [OF ne nr v t] show ?thesis by simp
  qed
  have expired: "authenticateToken env now' (Some (Bearer ?tok)) mw w = (Reject 401 ''EXPIRED_TOKEN'', mw, w)"
    if a: "?tok |\<notin>| revokedTokens mw \<and> type \<noteq> Refresh \<and> now div 1000 + seconds ttl \<le> now' div 1000"
  proof -
    from a have nr: "?tok |\<notin>| revokedTokens mw" by blast
    from a v1 have "jwt_verify ?tok (SECRET env) ?opts now' = Inl TokenExpiredError" by simp
    with nr ne show ?thesis by (simp add: authenticateToken_def)
  qed
  have malformed: "authenticateToken env now' (Some (Bearer ?tok)) mw w = (Reject 401 ''MALFORMED_TOKEN'', mw, w)"
    if a: "?tok |\<notin>| revokedTokens mw \<and> type = Refresh \<and> REFRESH_SECRET env \<noteq> SECRET env"
  proof -
    from a have nr: "?tok |\<notin>| revokedTokens mw" by blast
    from a have "jwt_verify ?tok (SECRET env) ?opts now' = Inl JsonWebTokenError"
      by (simp add: token_payload jwt_verify_def)
    with nr ne show ?thesis by (simp add: authenticateToken_def)
  qed
  from v1 v2 passes missing expired malformed show ?thesis unfolding Let_def by blast
qed

theorem token_round_trip_witness:
  "jwt_verify awaAccess (SECRET defaultEnv) \<lparr>issuer = Some ISSUER, audience = Some AUDIENCE\<rparr> 60000 =
     Inr \<lparr>p_userId = 7, p_email = ''a@example.ci'', p_type = Access, p_iat = 0, p_exp = 900,
          p_iss = ISSUER, p_aud = AUDIENCE, p_jti = ''jti-1''\<rparr> \<and>
   jwt_verify awaRefresh (REFRESH_SECRET defaultEnv) noOptions 604799999 =
     Inr \<lparr>p_userId = 7, p_email = ''a@example.ci'', p_type = Refresh, p_iat = 0, p_exp = 604800,
          p_iss = ISSUER, p_aud = AUDIENCE, p_jti = ''jti-2''\<rparr> \<and>
   jwt_verify awaRefresh (REFRESH_SECRET defaultEnv) noOptions 604800000 = Inl TokenExpiredError \<and>
   awaAccess |\<notin>| revokedTokens freshMiddleware \<and>
   fst (authenticateToken defaultEnv 60000 (Some (Bearer awaAccess)) freshMiddleware awaWorld) \<notin>
     {Reject 401 ''MISSING_TOKEN'', Reject 401 ''REVOKED_TOKEN'', Reject 401 ''EXPIRED_TOKEN'',
      Reject 401 ''MALFORMED_TOKEN'', Reject 401 ''WRONG_TOKEN_TYPE''} \<and>
   userCache freshMiddleware 7 = None \<and> user_findUnique emptyWorld 7 = None \<and>
   authenticateToken defaultEnv 60000 (Some (Bearer awaAccess)) freshMiddleware emptyWorld =
     (Reject 401 ''USER_NOT_FOUND'', freshMiddleware\<lparr>revokedTokens := {|awaAccess|}\<rparr>, emptyWorld) \<and>
   authenticateToken defaultEnv 900000 (Some (Bearer awaAccess)) freshMiddleware awaWorld =
     (Reject 401 ''EXPIRED_TOKEN'', freshMiddleware, awaWorld) \<and>
   awaRefresh |\<notin>| revokedTokens freshMiddleware \<and>
   REFRESH_SECRET defaultEnv \<noteq> SECRET defaultEnv \<and>
   authenticateToken defaultEnv 60000 (Some (Bearer awaRefresh)) freshMiddleware awaWorld =
     (Reject 401 ''MALFORMED_TOKEN'', freshMiddleware, awaWorld)"
proof -
  have n: "awaAccess |\<notin>| revokedTokens freshMiddleware" "awaRefresh |\<notin>| revokedTokens freshMiddleware"
    by (simp_all add: freshMiddleware_def)
  have d: "REFRESH_SECRET defaultEnv \<noteq> SECRET defaultEnv" by (simp add: defaultEnv_def)
  have c: "userCache freshMiddleware 7 = None" by (simp add: freshMiddleware_def)
  have u: "user_findUnique emptyWorld 7 = None" by (simp add: user_findUnique_def emptyWorld_def)
  have m: "freshMiddleware\<lparr>revokedTokens := finsert awaAccess (revokedTokens freshMiddleware),
             userCache := (userCache freshMiddleware)(7 := None)\<rparr> =
           freshMiddleware\<lparr>revokedTokens := {|awaAccess|}\<rparr>"
    by (simp add: freshMiddleware_def)
  note a = token_round_trip [where env = defaultEnv and userId = 7 and email = "''a@example.ci''"
        and type = Access and ttl = ACCESS_TOKEN_EXPIRES and jwtid = "''jti-1''" and now = 0
        and mw = freshMiddleware and w = awaWorld]
  note b = token_round_trip [where env = defaultEnv and userId = 7 and email = "''a@example.ci''"
        and type = Access and ttl = ACCESS_TOKEN_EXPIRES and jwtid = "''jti-1''" and now = 0
        and mw = freshMiddleware and w = emptyWorld and now' = 60000]
  note r = token_round_trip [where env = defaultEnv and userId = 7 and email = "''a@example.ci''"
        and type = Refresh and ttl = REFRESH_TOKEN_EXPIRES and jwtid = "''jti-2''" and now = 0
        and mw = freshMiddleware and w = awaWorld]
  have 1: "jwt_verify awaAccess (SECRET defaultEnv) \<lparr>issuer = Some ISSUER, audience = Some AUDIENCE\<rparr> 60000 =
     Inr \<lparr>p_userId = 7, p_email = ''a@example.ci'', p_type = Access, p_iat = 0, p_exp = 900,
          p_iss = ISSUER, p_aud = AUDIENCE, p_jti = ''jti-1''\<rparr>"
    using a [where now' = 60000]
    by (simp add: awaAccess_def ACCESS_TOKEN_EXPIRES_def Let_def)
  have 2: "jwt_verify awaRefresh (REFRESH_SECRET defaultEnv) noOptions 604799999 =
     Inr \<lparr>p_userId = 7, p_email = ''a@example.ci'', p_type = Refresh, p_iat = 0, p_exp = 604800,
          p_iss = ISSUER, p_aud = AUDIENCE, p_jti = ''jti-2''\<rparr>"
    using r [where now' = 604799999]
    by (simp add: awaRefresh_def REFRESH_TOKEN_EXPIRES_def Let_def)
  have 3: "jwt_verify awaRefresh (REFRESH_SECRET defaultEnv) noOptions 604800000 = Inl TokenExpiredError"
    using r [where now' = 604800000]
    by (simp add: awaRefresh_def REFRESH_TOKEN_EXPIRES_def Let_def)
  have 6: "fst (authenticateToken defaultEnv 60000 (Some (Bearer awaAccess)) freshMiddleware awaWorld) \<notin>
     {Reject 401 ''MISSING_TOKEN'', Reject 401 ''REVOKED_TOKEN'', Reject 401 ''EXPIRED_TOKEN'',
      Reject 401 ''MALFORMED_TOKEN'', Reject 401 ''WRONG_TOKEN_TYPE''}"
    using a [where now' = 60000] n
    by (simp add: awaAccess_def ACCESS_TOKEN_EXPIRES_def Let_def)
  have "authenticateToken defaultEnv 60000 (Some (Bearer awaAccess)) freshMiddleware emptyWorld =
     (Reject 401 ''USER_NOT_FOUND'',
      freshMiddleware\<lparr>revokedTokens := finsert awaAccess (revokedTokens freshMiddleware),
             userCache := (userCache freshMiddleware)(7 := None)\<rparr>, emptyWorld)"
    using b n c u
    by (simp add: awaAccess_def ACCESS_TOKEN_EXPIRES_def Let_def)
  then have 7: "authenticateToken defaultEnv 60000 (Some (Bearer awaAccess)) freshMiddleware emptyWorld =
     (Reject 401 ''USER_NOT_FOUND'', freshMiddleware\<lparr>revokedTokens := {|awaAccess|}\<rparr>, emptyWorld)"
    unfolding m .
  have 4: "authenticateToken defaultEnv 900000 (Some (Bearer awaAccess)) freshMiddleware awaWorld =
     (Reject 401 ''EXPIRED_TOKEN'', freshMiddleware, awaWorld)"
    using a [where now' = 900000] n
    by (simp add: awaAccess_def ACCESS_TOKEN_EXPIRES_def Let_def)
  have 5: "authenticateToken defaultEnv 60000 (Some (Bearer awaRefresh)) freshMiddleware awaWorld =
     (Reject 401 ''MALFORMED_TOKEN'', freshMiddleware, awaWorld)"
    using r [where now' = 60000] n d
    by (simp add: awaRefresh_def Let_def)
  from 1 2 3 n 6 c u 7 4 d 5 show ?thesis by simp
qed

text \<open>
  The claim as stated fails at the request verifier, which verifies with the main
  secret: a refresh token issued under the default secrets is answered with
  \<^verbatim>\<open>MALFORMED_TOKEN\<close> one second after its issue, and again a day after its seven
  days have passed, where the claim expects the identity and then an expiry.
\<close>

theorem refresh_token_at_verifier_counterexample:
  "fst (authenticateToken defaultEnv 1000
         (Some (Bearer (generateToken defaultEnv 7 ''a@example.ci'' Refresh (Days 7) ''jti-2'' 0)))
         freshMiddleware awaWorld)
     = Reject 401 ''MALFORMED_TOKEN'' \<and>
   fst (authenticateToken defaultEnv (8 * 86400000)
         (Some (Bearer (generateToken defaultEnv 7 ''a@example.ci'' Refresh (Days 7) ''jti-2'' 0)))
         freshMiddleware awaWorld)
     = Reject 401 ''MALFORMED_TOKEN''"
  by (simp add: authenticateToken_def token_payload jwt_verify_def defaultEnv_def
      freshMiddleware_def)

section \<open>Properties of the data store\<close>

lemma find_map_stable:
  "(\<And>x. P (g x) = P x) \<Longrightarrow> find P (map g xs) = map_option g (find P xs)"
  by (induction xs) simp_all

lemma find_distinct_key:
  "distinct (map f xs) \<Longrightarrow> x \<in> set xs \<Longrightarrow> find (\<lambda>y. f y = f x) xs = Some x"
  by (induction xs) (auto simp: rev_image_eqI)

lemma find_Some_mem: "find P xs = Some x \<Longrightarrow> x \<in> set xs \<and> P x"
  by (induction xs) (auto split: if_splits)

lemma found_row_by_id:
  assumes "schema_ok w" "findUserByEmailOrPhone w email phone = Some u"
  shows "user_findUnique w (u_id u) = Some u"
proof -
  from assms(2) have "u \<in> set (users w)"
    unfolding findUserByEmailOrPhone_def by (rule find_Some_mem [THEN conjunct1])
  moreover from assms(1) have "distinct (map u_id (users w))" by (simp add: schema_ok_def)
  ultimately show ?thesis unfolding user_findUnique_def by (rule find_distinct_key [rotated])
qed

lemma user_update_found:
  "user_findUnique w i = Some u \<Longrightarrow>
   user_update now i f w =
     Inr (w\<lparr>users := map (\<lambda>r. if u_id r = i then (f r)\<lparr>u_updatedAt := now\<rparr> else r) (users w)\<rparr>)"
  unfolding user_update_def user_findUnique_def
  by (auto simp: list_ex_iff dest: find_Some_mem)

text \<open>A change \<open>g\<close> of the user rows that keeps their keys.\<close>

lemma schema_ok_map_users:
  assumes "u_id \<circ> g = u_id" "u_email \<circ> g = u_email" "u_phone \<circ> g = u_phone" "schema_ok w"
  shows "schema_ok (w\<lparr>users := map g (users w)\<rparr>)"
proof -
  have i: "\<And>r. u_id (g r) = u_id r" using assms(1) by (metis comp_apply)
  show ?thesis
    using assms(4) by (simp add: schema_ok_def assms(1-3) list_all_iff list_ex_iff i)
qed

lemma findUser_map_users:
  assumes "u_email \<circ> g = u_email" "u_phone \<circ> g = u_phone"
  shows "findUserByEmailOrPhone (w\<lparr>users := map g (users w)\<rparr>) e p =
         map_option g (findUserByEmailOrPhone w e p)"
proof -
  have "\<And>r. u_email (g r) = u_email r" "\<And>r. u_phone (g r) = u_phone r"
    using assms by (metis comp_apply)+
  then show ?thesis
    unfolding findUserByEmailOrPhone_def by (simp add: find_map_stable)
qed

lemma user_findUnique_map_users:
  assumes "u_id \<circ> g = u_id"
  shows "user_findUnique (w\<lparr>users := map g (users w)\<rparr>) i = map_option g (user_findUnique w i)"
proof -
  have "\<And>r. u_id (g r) = u_id r" using assms by (metis comp_apply)
  then show ?thesis unfolding user_findUnique_def by (simp add: find_map_stable)
qed

lemma schema_ok_compareCalls [simp]: "schema_ok (w\<lparr>compareCalls := c\<rparr>) = schema_ok w"
  by (simp add: schema_ok_def)

lemma findUser_compareCalls [simp]:
  "findUserByEmailOrPhone (w\<lparr>compareCalls := c\<rparr>) e p = findUserByEmailOrPhone w e p"
  by (simp add: findUserByEmailOrPhone_def)

lemma user_findUnique_compareCalls [simp]:
  "user_findUnique (w\<lparr>compareCalls := c\<rparr>) i = user_findUnique w i"
  by (simp add: user_findUnique_def)

section \<open>Properties of login\<close>

lemma checkAccountLockout_free:
  assumes "user_findUnique w i = Some u" "case u_blockedUntil u of None \<Rightarrow> True | Some b \<Rightarrow> b \<le> now"
  shows "checkAccountLockout now i w = None"
  using assms by (auto simp: checkAccountLockout_def split: option.splits)

lemma checkAccountLockout_locked:
  assumes "user_findUnique w i = Some u" "u_blockedUntil u = Some b" "now < b"
  shows "checkAccountLockout now i w = Some (AccountLocked ((b - now + 59999) div 60000))"
  using assms by (simp add: checkAccountLockout_def)

lemma login_wrong_password:
  assumes ok: "schema_ok w"
    and f: "findUserByEmailOrPhone w (ld_identifier d) (ld_identifier d) = Some u"
    and nl: "case u_blockedUntil u of None \<Rightarrow> True | Some b \<Rightarrow> b \<le> now"
    and bad: "\<not> bcrypt_compare bc (ld_password d) (u_password u)"
  shows "fst (login env bc now j1 j2 d w) = Inl IncorrectCredentials \<and>
         schema_ok (snd (login env bc now j1 j2 d w)) \<and>
         compareCalls (snd (login env bc now j1 j2 d w)) = compareCalls w + 1 \<and>
         (\<exists>u'. findUserByEmailOrPhone (snd (login env bc now j1 j2 d w)) e p =
                 (if findUserByEmailOrPhone w e p = Some u then Some u' else findUserByEmailOrPhone w e p) \<and>
               u_id u' = u_id u \<and> u_password u' = u_password u \<and>
               u_loginAttempts u' = u_loginAttempts u + 1 \<and>
               u_blockedUntil u' =
                 (if u_loginAttempts u + 1 \<ge> MAX_LOGIN_ATTEMPTS then Some (now + LOCKOUT_TIME)
                  else u_blockedUntil u))"
proof -
  let ?i = "u_id u"
  let ?w1 = "w\<lparr>compareCalls := compareCalls w + 1\<rparr>"
  let ?f = "\<lambda>r. if u_loginAttempts u + 1 \<ge> MAX_LOGIN_ATTEMPTS
                then r\<lparr>u_loginAttempts := u_loginAttempts u + 1, u_blockedUntil := Some (now + LOCKOUT_TIME)\<rparr>
                else r\<lparr>u_loginAttempts := u_loginAttempts u + 1\<rparr>"
  let ?g = "\<lambda>r. if u_id r = ?i then (?f r)\<lparr>u_updatedAt := now\<rparr> else r"
  let ?w2 = "?w1\<lparr>users := map ?g (users ?w1)\<rparr>"
  have row: "user_findUnique w ?i = Some u" using ok f by (rule found_row_by_id)
  have free: "checkAccountLockout now ?i w = None" using row nl by (rule checkAccountLockout_free)
  have upd: "handleFailedLogin now ?i ?w1 = Inr ?w2"
    unfolding handleFailedLogin_def Let_def
    using row by (simp add: user_update_found [where u = u])
  have res: "login env bc now j1 j2 d w = (Inl IncorrectCredentials, ?w2)"
    unfolding login_def using f free bad upd by (simp add: Let_def)
  have k: "u_id \<circ> ?g = u_id" "u_email \<circ> ?g = u_email" "u_phone \<circ> ?g = u_phone"
    by (rule ext, simp)+
  have ok2: "schema_ok ?w2" using schema_ok_map_users [OF k, of ?w1] ok by simp
  have fnd: "findUserByEmailOrPhone ?w2 e p = map_option ?g (findUserByEmailOrPhone w e p)"
    using findUser_map_users [OF k(2,3), of ?w1 e p] by simp
  have other: "\<And>v. findUserByEmailOrPhone w e p = Some v \<Longrightarrow> v \<noteq> u \<Longrightarrow> ?g v = v"
  proof -
    fix v assume v: "findUserByEmailOrPhone w e p = Some v" and ne: "v \<noteq> u"
    have "user_findUnique w (u_id v) = Some v" using ok v by (rule found_row_by_id)
    with row ne have "u_id v \<noteq> ?i" by auto
    then show "?g v = v" by simp
  qed
  show ?thesis
  proof (intro conjI exI [of _ "?g u"])
    show "fst (login env bc now j1 j2 d w) = Inl IncorrectCredentials" by (simp add: res)
    show "schema_ok (snd (login env bc now j1 j2 d w))" using ok2 by (simp add: res)
    show "compareCalls (snd (login env bc now j1 j2 d w)) = compareCalls w + 1" by (simp add: res)
    show "findUserByEmailOrPhone (snd (login env bc now j1 j2 d w)) e p =
        (if findUserByEmailOrPhone w e p = Some u then Some (?g u) else findUserByEmailOrPhone w e p)"
      unfolding res snd_conv fnd
      by (cases "findUserByEmailOrPhone w e p") (auto simp: other)
  qed simp_all
qed


lemma login_locked:
  assumes ok: "schema_ok w"
    and f: "findUserByEmailOrPhone w (ld_identifier d) (ld_identifier d) = Some u"
    and b: "u_blockedUntil u = Some b" and fut: "now < b"
  shows "login env bc now j1 j2 d w = (Inl (AccountLocked ((b - now + 59999) div 60000)), w)"
proof -
  have row: "user_findUnique w (u_id u) = Some u" using ok f by (rule found_row_by_id)
  have "checkAccountLockout now (u_id u) w = Some (AccountLocked ((b - now + 59999) div 60000))"
    using row b fut by (rule checkAccountLockout_locked)
  then show ?thesis unfolding login_def using f by simp
qed


lemma login_unknown:
  "findUserByEmailOrPhone w (ld_identifier d) (ld_identifier d) = None \<Longrightarrow>
   login env bc now j1 j2 d w = (Inl IncorrectCredentials, w)"
  by (simp add: login_def)



subsection \<open>The account guard\<close>








subsection \<open>A login with the right password\<close>

lemma login_correct_password:
  assumes ok: "schema_ok w"
    and f: "findUserByEmailOrPhone w (ld_identifier d) (ld_identifier d) = Some u"
    and nl: "case u_blockedUntil u of None \<Rightarrow> True | Some b \<Rightarrow> b \<le> now"
    and good: "bcrypt_compare bc (ld_password d) (u_password u)"
  shows "login env bc now j1 j2 d w = (Inl ReferenceError, w\<lparr>compareCalls := compareCalls w + 1\<rparr>)"
proof -
  have row: "user_findUnique w (u_id u) = Some u" using ok f by (rule found_row_by_id)
  have free: "checkAccountLockout now (u_id u) w = None" using row nl by (rule checkAccountLockout_free)
  show ?thesis unfolding login_def using f free good by (simp add: Let_def)
qed

lemma login_never_succeeds: "fst (login env bc now j1 j2 d w) \<noteq> Inr res"
  by (simp add: login_def Let_def split: option.split sum.split)

text \<open>
  Claim C7 at a login the code can receive: the identity is active and not locked
  out, its counter of failed logins is 3, and the password is the right one. The
  login raises the \<^verbatim>\<open>ReferenceError\<close> of the status test; the comparison of the
  password is the only thing that has happened, and the row still has the counter 3.
\<close>

theorem login_keeps_failed_attempts:
  "schema_ok triedWorld \<and>
   findUserByEmailOrPhone triedWorld (ld_identifier rightLogin) (ld_identifier rightLogin) =
     Some (awa\<lparr>u_loginAttempts := 3\<rparr>) \<and>
   u_status (awa\<lparr>u_loginAttempts := 3\<rparr>) = ACTIVE \<and>
   u_blockedUntil (awa\<lparr>u_loginAttempts := 3\<rparr>) = None \<and>
   bcrypt_compare testBcrypt (ld_password rightLogin) (u_password (awa\<lparr>u_loginAttempts := 3\<rparr>)) \<and>
   login defaultEnv testBcrypt 60000 ''jti-8'' ''jti-9'' rightLogin triedWorld =
     (Inl ReferenceError, triedWorld\<lparr>compareCalls := 1\<rparr>) \<and>
   map_option u_loginAttempts
     (user_findUnique (snd (login defaultEnv testBcrypt 60000 ''jti-8'' ''jti-9'' rightLogin triedWorld)) 7) =
     Some 3"
proof -
  let ?u = "awa\<lparr>u_loginAttempts := 3\<rparr>"
  have ok: "schema_ok triedWorld" by (simp add: eval_defs)
  have f: "findUserByEmailOrPhone triedWorld (ld_identifier rightLogin) (ld_identifier rightLogin) = Some ?u"
    by (simp add: eval_defs)
  have st: "u_status ?u = ACTIVE" "u_blockedUntil ?u = None" by (simp_all add: awa_def)
  have nl: "case u_blockedUntil ?u of None \<Rightarrow> True | Some b \<Rightarrow> b \<le> 60000" by (simp add: awa_def)
  have pw: "bcrypt_compare testBcrypt (ld_password rightLogin) (u_password ?u)"
    by (simp add: eval_defs)
  have c: "compareCalls triedWorld = 0" by (simp add: eval_defs)
  have res: "login defaultEnv testBcrypt 60000 ''jti-8'' ''jti-9'' rightLogin triedWorld =
     (Inl ReferenceError, triedWorld\<lparr>compareCalls := 1\<rparr>)"
    using login_correct_password [OF ok f nl pw, of defaultEnv "''jti-8''" "''jti-9''"] c by simp
  have row: "map_option u_loginAttempts (user_findUnique (triedWorld\<lparr>compareCalls := 1\<rparr>) 7) = Some 3"
    by (simp add: eval_defs)
  from ok f st pw res row show ?thesis by simp
qed

subsection \<open>What a failed login and a reset request reveal\<close>

lemma requestPasswordReset_succeeds: "fst (requestPasswordReset env now jti email w) = Inr ()"
  by (simp add: requestPasswordReset_def Let_def split: option.split)

lemma reset_response:
  "fst (AuthController_requestPasswordReset env now jti email w) =
     \<lparr>res_status = 200, res_success = True, res_message = ResetLinkSent\<rparr>"
proof -
  obtain r w' where r: "requestPasswordReset env now jti email w = (r, w')"
    by (cases "requestPasswordReset env now jti email w") auto
  with requestPasswordReset_succeeds [of env now jti email w] have "r = Inr ()" by simp
  with r show ?thesis by (simp add: AuthController_requestPasswordReset_def)
qed

text \<open>
  Claim C5, as amended. A login whose identifier matches no identity, and a login
  whose identifier matches an identity that is not locked out but whose password is
  wrong, fail with the same message. A password reset request is answered with the
  same generic success whether or not the email belongs to an identity.
\<close>

theorem anti_enumeration:
  assumes "findUserByEmailOrPhone w1 (ld_identifier d1) (ld_identifier d1) = None"
    and "schema_ok w2"
    and "findUserByEmailOrPhone w2 (ld_identifier d2) (ld_identifier d2) = Some u"
    and "case u_blockedUntil u of None \<Rightarrow> True | Some b \<Rightarrow> b \<le> now2"
    and "\<not> bcrypt_compare bc (ld_password d2) (u_password u)"
  shows "fst (login env bc now1 j1 j2 d1 w1) = Inl IncorrectCredentials \<and>
         fst (login env bc now2 j3 j4 d2 w2) = Inl IncorrectCredentials \<and>
         fst (requestPasswordReset env now1 jti email w1) = Inr () \<and>
         fst (requestPasswordReset env now2 jti' email' w2) = Inr () \<and>
         fst (AuthController_requestPasswordReset env now1 jti email w1) =
           \<lparr>res_status = 200, res_success = True, res_message = ResetLinkSent\<rparr> \<and>
         fst (AuthController_requestPasswordReset env now2 jti' email' w2) =
           \<lparr>res_status = 200, res_success = True, res_message = ResetLinkSent\<rparr>"
  using login_unknown [OF assms(1), of env bc now1 j1 j2]
    login_wrong_password [OF assms(2-5), of env j3 j4]
  by (simp add: requestPasswordReset_succeeds reset_response)

theorem anti_enumeration_witness:
  "findUserByEmailOrPhone awaWorld (ld_identifier strangerLogin) (ld_identifier strangerLogin) = None \<and>
   schema_ok awaWorld \<and>
   findUserByEmailOrPhone awaWorld (ld_identifier wrongLogin) (ld_identifier wrongLogin) = Some awa \<and>
   \<not> bcrypt_compare testBcrypt (ld_password wrongLogin) (u_password awa) \<and>
   fst (login defaultEnv testBcrypt 60000 ''a1'' ''b1'' strangerLogin awaWorld) = Inl IncorrectCredentials \<and>
   fst (login defaultEnv testBcrypt 60000 ''a1'' ''b1'' wrongLogin awaWorld) = Inl IncorrectCredentials \<and>
   user_findUnique_email awaWorld (trim (toLowerCase ''b@example.ci'')) = None \<and>
   user_findUnique_email awaWorld (trim (toLowerCase ''a@example.ci'')) = Some awa \<and>
   fst (AuthController_requestPasswordReset defaultEnv 60000 ''a2'' ''b@example.ci'' awaWorld) =
     \<lparr>res_status = 200, res_success = True, res_message = ResetLinkSent\<rparr> \<and>
   fst (AuthController_requestPasswordReset defaultEnv 60000 ''a2'' ''a@example.ci'' awaWorld) =
     \<lparr>res_status = 200, res_success = True, res_message = ResetLinkSent\<rparr>"
proof -
  have n: "findUserByEmailOrPhone awaWorld (ld_identifier strangerLogin) (ld_identifier strangerLogin) = None"
    by (simp add: eval_defs)
  have ok: "schema_ok awaWorld" by (simp add: eval_defs)
  have f: "findUserByEmailOrPhone awaWorld (ld_identifier wrongLogin) (ld_identifier wrongLogin) = Some awa"
    by (simp add: eval_defs)
  have nl: "case u_blockedUntil awa of None \<Rightarrow> True | Some b \<Rightarrow> b \<le> 60000" by (simp add: awa_def)
  have bad: "\<not> bcrypt_compare testBcrypt (ld_password wrongLogin) (u_password awa)"
    by (simp add: eval_defs)
  have e1: "user_findUnique_email awaWorld (trim (toLowerCase ''b@example.ci'')) = None"
    and e2: "user_findUnique_email awaWorld (trim (toLowerCase ''a@example.ci'')) = Some awa"
    by (simp_all add: eval_defs)
  from anti_enumeration [OF n ok f nl bad, where env = defaultEnv and ?now1.0 = 60000
      and ?j1.0 = "''a1''" and ?j2.0 = "''b1''" and ?j3.0 = "''a1''" and ?j4.0 = "''b1''"
      and jti = "''a2''" and jti' = "''a2''" and email = "''b@example.ci''" and email' = "''a@example.ci''"]
    n ok f bad e1 e2
  show ?thesis by simp
qed

text \<open>
  The claim as stated fails for an identity that is locked out: the login with a
  wrong password is answered with the lockout message, the login with an unknown
  identifier with the message of incorrect credentials.
\<close>

theorem lockout_reveals_identity_counterexample:
  "findUserByEmailOrPhone lockedWorld (ld_identifier strangerLogin) (ld_identifier strangerLogin) = None \<and>
   fst (login defaultEnv testBcrypt 60000 ''a1'' ''b1'' strangerLogin lockedWorld) = Inl IncorrectCredentials \<and>
   findUserByEmailOrPhone lockedWorld (ld_identifier wrongLogin) (ld_identifier wrongLogin) =
     Some (awa\<lparr>u_loginAttempts := 5, u_blockedUntil := Some 900000\<rparr>) \<and>
   \<not> bcrypt_compare testBcrypt (ld_password wrongLogin)
        (u_password (awa\<lparr>u_loginAttempts := 5, u_blockedUntil := Some 900000\<rparr>)) \<and>
   fst (login defaultEnv testBcrypt 60000 ''a1'' ''b1'' wrongLogin lockedWorld) = Inl (AccountLocked 14)"
proof -
  have n: "findUserByEmailOrPhone lockedWorld (ld_identifier strangerLogin) (ld_identifier strangerLogin) = None"
    by (simp add: eval_defs)
  have ok: "schema_ok lockedWorld" by (simp add: eval_defs)
  have f: "findUserByEmailOrPhone lockedWorld (ld_identifier wrongLogin) (ld_identifier wrongLogin) =
     Some (awa\<lparr>u_loginAttempts := 5, u_blockedUntil := Some 900000\<rparr>)"
    by (simp add: eval_defs)
  have bad: "\<not> bcrypt_compare testBcrypt (ld_password wrongLogin)
        (u_password (awa\<lparr>u_loginAttempts := 5, u_blockedUntil := Some 900000\<rparr>))"
    by (simp add: eval_defs)
  have 1: "fst (login defaultEnv testBcrypt 60000 ''a1'' ''b1'' strangerLogin lockedWorld) = Inl IncorrectCredentials"
    using login_unknown [OF n] by simp
  have 2: "fst (login defaultEnv testBcrypt 60000 ''a1'' ''b1'' wrongLogin lockedWorld) = Inl (AccountLocked 14)"
    using login_locked [OF ok f, of 900000 60000] by simp
  from n 1 f bad 2 show ?thesis by simp
qed

section \<open>Properties of refresh\<close>

lemma unusedJti_not_stored:
  assumes "unusedJti jwtid w"
  shows "\<not> list_ex (\<lambda>r. rt_token r = generateToken env i email type ttl jwtid now) (refresh_tokens w)"
  using assms
  by (auto simp: unusedJti_def list_all_iff list_ex_iff token_payload)

lemma generateTokenPair_fresh:
  assumes "list_ex (\<lambda>u. u_id u = i) (users w)" "unusedJti j2 w"
  shows "generateTokenPair env now j1 j2 i email rm w =
     (Inr \<lparr>at_accessToken = generateToken env i email Access ACCESS_TOKEN_EXPIRES j1 now,
           at_refreshToken =
             generateToken env i email Refresh (if rm then Days 30 else REFRESH_TOKEN_EXPIRES) j2 now,
           at_expiresIn = (if rm then 30 * 24 * 60 * 60 * 1000 else 7 * 24 * 60 * 60 * 1000)\<rparr>,
      w\<lparr>refresh_tokens := refresh_tokens w @
           [\<lparr>rt_id = nextId w,
             rt_token =
               generateToken env i email Refresh (if rm then Days 30 else REFRESH_TOKEN_EXPIRES) j2 now,
             rt_userId = i, rt_expiresAt = now + (if rm then 30 else 7) * 86400000\<rparr>],
         nextId := nextId w + 1\<rparr>)"
  using assms(1) unusedJti_not_stored [OF assms(2)]
  by (simp add: generateTokenPair_def Let_def refreshToken_create_def)

lemma find_None_filter_append:
  "find P (xs @ ys) = None \<longleftrightarrow> find P xs = None \<and> find P ys = None"
  by (induction xs) auto

lemma find_append_later: "find P xs = None \<Longrightarrow> find P (xs @ ys) = find P ys"
  by (induction xs) (auto split: if_splits)

lemma refreshTokens_without_row:
  "refreshToken_findUnique w tok = None \<Longrightarrow>
   refreshTokens env now j1 j2 tok w = (Inl InvalidRefreshToken, w)"
  by (simp add: refreshTokens_def split: sum.split)

lemma schema_ok_after_rotation:
  assumes ok: "schema_ok w"
    and ex: "list_ex (\<lambda>u. u_id u = i) (users w)"
    and new: "\<not> list_ex (\<lambda>r. rt_token r = t) (refresh_tokens w)"
  shows "schema_ok (w\<lparr>refresh_tokens :=
            filter (\<lambda>r. rt_id r \<noteq> rid)
              (refresh_tokens w @ [\<lparr>rt_id = nextId w, rt_token = t, rt_userId = i, rt_expiresAt = e\<rparr>]),
          nextId := nextId w + 1\<rparr>)"
proof -
  let ?new = "\<lparr>rt_id = nextId w, rt_token = t, rt_userId = i, rt_expiresAt = e\<rparr>"
  let ?all = "refresh_tokens w @ [?new]"
  have d1: "distinct (map rt_id ?all)"
    using ok by (auto simp: schema_ok_def list_all_iff)
  have d2: "distinct (map rt_token ?all)"
    using ok new by (auto simp: schema_ok_def list_ex_iff)
  have b1: "list_all (\<lambda>r. rt_id r < nextId w + 1) ?all"
    using ok by (auto simp: schema_ok_def list_all_iff)
  have b2: "list_all (\<lambda>u. u_id u < nextId w + 1) (users w)"
    using ok by (auto simp: schema_ok_def list_all_iff)
  have fk: "list_all (\<lambda>r. list_ex (\<lambda>u. u_id u = rt_userId r) (users w)) ?all"
    using ok ex by (simp add: schema_ok_def)
  have f1: "distinct (map rt_id (filter (\<lambda>r. rt_id r \<noteq> rid) ?all))"
    using d1 by (rule distinct_map_filter)
  have f2: "distinct (map rt_token (filter (\<lambda>r. rt_id r \<noteq> rid) ?all))"
    using d2 by (rule distinct_map_filter)
  have f3: "list_all (\<lambda>r. rt_id r < nextId w + 1) (filter (\<lambda>r. rt_id r \<noteq> rid) ?all)"
    using b1 unfolding list_all_iff by auto
  have f4: "list_all (\<lambda>r. list_ex (\<lambda>u. u_id u = rt_userId r) (users w))
              (filter (\<lambda>r. rt_id r \<noteq> rid) ?all)"
    using fk unfolding list_all_iff by auto
  from ok f1 f2 f3 f4 b2 show ?thesis
    by (simp add: schema_ok_def del: filter_append filter.simps)
qed

text \<open>
  Claim C1. Let the database be well formed, let a refresh token verify under the
  refresh secret with purpose refresh, let its row be stored and not expired, and
  let the identifier drawn for the new refresh token be unused. Then the refresh
  succeeds and returns a pair of tokens issued now for the user of the row; the new
  refresh token differs from the old one and has a row of its own; the row of the old
  token is gone; and presenting the old token again, at any time and with any random
  identifiers, fails and changes nothing.
\<close>

theorem refresh_rotation:
  assumes ok: "schema_ok w"
    and valid: "jwt_verify tok (REFRESH_SECRET env) noOptions now = Inr payload"
    and purpose: "p_type payload = Refresh"
    and stored: "refreshToken_findUnique w tok = Some r"
    and live: "now \<le> rt_expiresAt r"
    and fresh: "unusedJti j2 w"
  shows "\<exists>u. user_findUnique w (rt_userId r) = Some u \<and>
           fst (refreshTokens env now j1 j2 tok w) =
             Inr \<lparr>at_accessToken =
                    generateToken env (rt_userId r) (u_email u) Access ACCESS_TOKEN_EXPIRES j1 now,
                  at_refreshToken =
                    generateToken env (rt_userId r) (u_email u) Refresh REFRESH_TOKEN_EXPIRES j2 now,
                  at_expiresIn = 7 * 24 * 60 * 60 * 1000\<rparr> \<and>
           generateToken env (rt_userId r) (u_email u) Refresh REFRESH_TOKEN_EXPIRES j2 now \<noteq> tok \<and>
           refreshToken_findUnique (snd (refreshTokens env now j1 j2 tok w)) tok = None \<and>
           refreshToken_findUnique (snd (refreshTokens env now j1 j2 tok w))
               (generateToken env (rt_userId r) (u_email u) Refresh REFRESH_TOKEN_EXPIRES j2 now) =
             Some \<lparr>rt_id = nextId w,
                   rt_token = generateToken env (rt_userId r) (u_email u) Refresh REFRESH_TOKEN_EXPIRES j2 now,
                   rt_userId = rt_userId r, rt_expiresAt = now + 7 * 86400000\<rparr> \<and>
           schema_ok (snd (refreshTokens env now j1 j2 tok w)) \<and>
           refreshTokens env now' j1' j2' tok (snd (refreshTokens env now j1 j2 tok w)) =
             (Inl InvalidRefreshToken, snd (refreshTokens env now j1 j2 tok w))"
proof -
  let ?i = "rt_userId r"
  from stored have rmem: "r \<in> set (refresh_tokens w)" and rtok: "rt_token r = tok"
    unfolding refreshToken_findUnique_def by (auto dest: find_Some_mem)
  from ok rmem have "list_ex (\<lambda>u. u_id u = ?i) (users w)"
    by (auto simp: schema_ok_def list_all_iff)
  then obtain u where umem: "u \<in> set (users w)" and uid: "u_id u = ?i"
    by (auto simp: list_ex_iff)
  from ok have du: "distinct (map u_id (users w))" by (simp add: schema_ok_def)
  have row: "user_findUnique w ?i = Some u"
    unfolding user_findUnique_def uid [symmetric] using du umem by (rule find_distinct_key)
  have ex: "list_ex (\<lambda>u. u_id u = ?i) (users w)" using umem uid by (auto simp: list_ex_iff)
  let ?new = "generateToken env ?i (u_email u) Refresh REFRESH_TOKEN_EXPIRES j2 now"
  let ?row = "\<lparr>rt_id = nextId w, rt_token = ?new, rt_userId = ?i, rt_expiresAt = now + 7 * 86400000\<rparr>"
  let ?toks = "\<lparr>at_accessToken = generateToken env ?i (u_email u) Access ACCESS_TOKEN_EXPIRES j1 now,
                at_refreshToken = ?new, at_expiresIn = 7 * 24 * 60 * 60 * 1000\<rparr>"
  let ?w1 = "w\<lparr>refresh_tokens := refresh_tokens w @ [?row], nextId := nextId w + 1\<rparr>"
  let ?w2 = "?w1\<lparr>refresh_tokens := filter (\<lambda>x. rt_id x \<noteq> rt_id r) (refresh_tokens ?w1)\<rparr>"
  have notin: "\<not> list_ex (\<lambda>x. rt_token x = ?new) (refresh_tokens w)"
    using fresh by (rule unusedJti_not_stored)
  have pair: "generateTokenPair env now j1 j2 ?i (u_email u) False w = (Inr ?toks, ?w1)"
    using generateTokenPair_fresh [OF ex fresh, of env now j1 "u_email u" False] by simp
  have del: "refreshToken_delete (rt_id r) ?w1 = Inr ?w2"
    using rmem by (auto simp: refreshToken_delete_def list_ex_iff)
  have res: "refreshTokens env now j1 j2 tok w = (Inr ?toks, ?w2)"
    unfolding refreshTokens_def using valid purpose stored live row pair del by simp
  have differ: "?new \<noteq> tok"
    using notin rmem rtok by (auto simp: list_ex_iff)
  from ok have dt: "distinct (map rt_token (refresh_tokens w))"
    and di: "distinct (map rt_id (refresh_tokens w))"
    and lt: "list_all (\<lambda>x. rt_id x < nextId w) (refresh_tokens w)"
    by (simp_all add: schema_ok_def)
  have only: "x = r" if "x \<in> set (refresh_tokens w)" "rt_token x = tok" for x
    using dt that rmem rtok by (metis distinct_map inj_onD)
  have rid: "rt_id r \<noteq> nextId w" using lt rmem by (auto simp: list_all_iff)
  have gone: "refreshToken_findUnique ?w2 tok = None"
    unfolding refreshToken_findUnique_def
    using only differ by (auto simp: find_None_iff)
  have old_none: "find (\<lambda>x. rt_token x = ?new) (filter (\<lambda>x. rt_id x \<noteq> rt_id r) (refresh_tokens w)) = None"
    using notin by (auto simp: find_None_iff list_ex_iff)
  have present: "refreshToken_findUnique ?w2 ?new = Some ?row"
    unfolding refreshToken_findUnique_def
    using rid by (simp add: find_append_later [OF old_none])
  have w2: "?w2 = w\<lparr>refresh_tokens :=
            filter (\<lambda>x. rt_id x \<noteq> rt_id r) (refresh_tokens w @ [?row]), nextId := nextId w + 1\<rparr>"
    by (simp del: filter_append filter.simps)
  have ok2: "schema_ok ?w2"
    unfolding w2 using ok ex notin by (rule schema_ok_after_rotation)
  have replay: "refreshTokens env now' j1' j2' tok ?w2 = (Inl InvalidRefreshToken, ?w2)"
    using gone by (rule refreshTokens_without_row)
  show ?thesis
    apply (rule exI [of _ u])
    unfolding res fst_conv snd_conv
    using row differ gone present ok2 replay by (simp add: REFRESH_TOKEN_EXPIRES_def)
qed

theorem refresh_rotation_witness:
  "schema_ok sessionWorld \<and>
   jwt_verify awaRefresh (REFRESH_SECRET defaultEnv) noOptions 60000 =
     Inr \<lparr>p_userId = 7, p_email = ''a@example.ci'', p_type = Refresh, p_iat = 0, p_exp = 604800,
          p_iss = ISSUER, p_aud = AUDIENCE, p_jti = ''jti-2''\<rparr> \<and>
   refreshToken_findUnique sessionWorld awaRefresh =
     Some \<lparr>rt_id = 8, rt_token = awaRefresh, rt_userId = 7, rt_expiresAt = 604800000\<rparr> \<and>
   unusedJti ''jti-4'' sessionWorld \<and>
   fst (refreshTokens defaultEnv 60000 ''jti-3'' ''jti-4'' awaRefresh sessionWorld) =
     Inr \<lparr>at_accessToken =
            generateToken defaultEnv 7 ''a@example.ci'' Access ACCESS_TOKEN_EXPIRES ''jti-3'' 60000,
          at_refreshToken =
            generateToken defaultEnv 7 ''a@example.ci'' Refresh REFRESH_TOKEN_EXPIRES ''jti-4'' 60000,
          at_expiresIn = 7 * 24 * 60 * 60 * 1000\<rparr> \<and>
   refreshToken_findUnique
       (snd (refreshTokens defaultEnv 60000 ''jti-3'' ''jti-4'' awaRefresh sessionWorld)) awaRefresh = None \<and>
   fst (refreshTokens defaultEnv 61000 ''jti-5'' ''jti-6'' awaRefresh
          (snd (refreshTokens defaultEnv 60000 ''jti-3'' ''jti-4'' awaRefresh sessionWorld))) =
     Inl InvalidRefreshToken"
proof -
  let ?p = "\<lparr>p_userId = 7, p_email = ''a@example.ci'', p_type = Refresh, p_iat = 0, p_exp = 604800,
          p_iss = ISSUER, p_aud = AUDIENCE, p_jti = ''jti-2''\<rparr>"
  let ?r = "\<lparr>rt_id = 8, rt_token = awaRefresh, rt_userId = 7, rt_expiresAt = 604800000\<rparr>"
  have ok: "schema_ok sessionWorld" by (simp add: eval_defs)
  have v: "jwt_verify awaRefresh (REFRESH_SECRET defaultEnv) noOptions 60000 = Inr ?p"
    by (simp add: eval_defs jwt_verify_def noOptions_def)
  have t: "p_type ?p = Refresh" by simp
  have s: "refreshToken_findUnique sessionWorld awaRefresh = Some ?r" by (simp add: eval_defs)
  have l: "60000 \<le> rt_expiresAt ?r" by simp
  have fresh: "unusedJti ''jti-4'' sessionWorld" by (simp add: eval_defs)
  have row: "user_findUnique sessionWorld (rt_userId ?r) = Some awa" by (simp add: eval_defs)
  from refresh_rotation [OF ok v t s l fresh, of "''jti-3''" 61000 "''jti-5''" "''jti-6''"] row
  have "fst (refreshTokens defaultEnv 60000 ''jti-3'' ''jti-4'' awaRefresh sessionWorld) =
     Inr \<lparr>at_accessToken =
            generateToken defaultEnv 7 ''a@example.ci'' Access ACCESS_TOKEN_EXPIRES ''jti-3'' 60000,
          at_refreshToken =
            generateToken defaultEnv 7 ''a@example.ci'' Refresh REFRESH_TOKEN_EXPIRES ''jti-4'' 60000,
          at_expiresIn = 7 * 24 * 60 * 60 * 1000\<rparr> \<and>
   refreshToken_findUnique
       (snd (refreshTokens defaultEnv 60000 ''jti-3'' ''jti-4'' awaRefresh sessionWorld)) awaRefresh = None \<and>
   fst (refreshTokens defaultEnv 61000 ''jti-5'' ''jti-6'' awaRefresh
          (snd (refreshTokens defaultEnv 60000 ''jti-3'' ''jti-4'' awaRefresh sessionWorld))) =
     Inl InvalidRefreshToken"
    by (auto simp: awa_def)
  with ok v s fresh show ?thesis by simp
qed

section \<open>Properties of logout\<close>

lemma logout_one:
  "truthy (Some tok) \<Longrightarrow>
   refresh_tokens (logout userId (Some tok) w) =
     filter (\<lambda>r. \<not> (rt_userId r = userId \<and> rt_token r = tok)) (refresh_tokens w)"
  by (simp add: logout_def logActivity_def refreshToken_deleteMany_def)

lemma logout_all:
  "\<not> truthy tok \<Longrightarrow>
   refresh_tokens (logout userId tok w) = filter (\<lambda>r. rt_userId r \<noteq> userId) (refresh_tokens w)"
  by (simp add: logout_def logActivity_def refreshToken_deleteMany_def)

lemma logout_ignores_allDevices:
  "AuthController_logout (req\<lparr>body_allDevices := flag\<rparr>) w = AuthController_logout req w"
  by (simp add: AuthController_logout_def Let_def split: option.split)

text \<open>
  Claim C8 at a request the code can receive: a logout of a user with two sessions
  that asks for all devices and carries the refresh token of the first session in its
  cookie. Only the row of that token is deleted; the refresh token of the second
  session is still stored and a refresh with it succeeds.
\<close>

theorem logout_all_devices_keeps_other_session:
  "body_allDevices logoutEverywhere = Some True \<and>
   map rt_token (refresh_tokens twoSessions) = [awaRefresh, awaRefresh2] \<and>
   map rt_token (refresh_tokens (snd (AuthController_logout logoutEverywhere twoSessions))) =
     [awaRefresh2] \<and>
   fst (refreshTokens defaultEnv 60000 ''jti-6'' ''jti-7'' awaRefresh2
          (snd (AuthController_logout logoutEverywhere twoSessions))) =
     Inr \<lparr>at_accessToken =
            generateToken defaultEnv 7 ''a@example.ci'' Access ACCESS_TOKEN_EXPIRES ''jti-6'' 60000,
          at_refreshToken =
            generateToken defaultEnv 7 ''a@example.ci'' Refresh REFRESH_TOKEN_EXPIRES ''jti-7'' 60000,
          at_expiresIn = 7 * 24 * 60 * 60 * 1000\<rparr>"
proof -
  let ?w = "snd (AuthController_logout logoutEverywhere twoSessions)"
  have w: "?w = twoSessions
      \<lparr>refresh_tokens := [\<lparr>rt_id = 9, rt_token = awaRefresh2, rt_userId = 7, rt_expiresAt = 604800000\<rparr>],
       logs_activite := [\<lparr>la_userId = 7, la_action = ''USER_LOGOUT''\<rparr>]\<rparr>"
    by (simp add: AuthController_logout_def logoutEverywhere_def logout_def truthy_def
        refreshToken_deleteMany_def logActivity_def eval_defs SessionUser.truncate_def)
  have 1: "map rt_token (refresh_tokens ?w) = [awaRefresh2]" unfolding w by simp
  have 2: "fst (refreshTokens defaultEnv 60000 ''jti-6'' ''jti-7'' awaRefresh2 ?w) =
     Inr \<lparr>at_accessToken =
            generateToken defaultEnv 7 ''a@example.ci'' Access ACCESS_TOKEN_EXPIRES ''jti-6'' 60000,
          at_refreshToken =
            generateToken defaultEnv 7 ''a@example.ci'' Refresh REFRESH_TOKEN_EXPIRES ''jti-7'' 60000,
          at_expiresIn = 7 * 24 * 60 * 60 * 1000\<rparr>"
    unfolding w
    by (simp add: refreshTokens_def jwt_verify_def noOptions_def generateTokenPair_def
        refreshToken_create_def refreshToken_delete_def eval_defs)
  have 0: "body_allDevices logoutEverywhere = Some True" by (simp add: logoutEverywhere_def)
  have 3: "map rt_token (refresh_tokens twoSessions) = [awaRefresh, awaRefresh2]"
    by (simp add: twoSessions_def)
  from 0 3 1 2 show ?thesis by simp
qed

section \<open>Properties of registration\<close>

lemma register_changes_nothing:
  assumes "register env bc now jti1 jti2 data w = Some (r, w')"
  shows "w' = w \<and> (\<exists>e. r = Inl e)"
  using assms
  by (auto simp: register_def Let_def split: option.splits if_splits)

lemma awaData_valid: "validateRegistrationData defaultEnv awaData = None"
  by (simp add: validateRegistrationData_def awaData_def emailRegex_def phoneRegex_def
      validatePassword_def PASSWORD_MIN_LENGTH_def PASSWORD_MAX_LENGTH_def isDigit_def
      startsWith_def isSpace_def defaultEnv_def Let_def upt_rec)

lemma awaData_slug: "generateUniqueSlug emptyWorld (rd_firstName awaData) (rd_lastName awaData) = Some ''awa-kone''"
  unfolding generateUniqueSlug_def Let_def
  by (subst slugLoop.simps)
     (simp add: slugExists_def emptyWorld_def awaData_def toLowerCase_def lowerChar_def
       isLower_def isDigit_def char_of_def bit_Suc_0_iff)

text \<open>
  Claim C2 at a valid registration into an empty database: the data pass the
  validation, no identity has the email or the phone, and the slug loop ends at once.
  The registration raises the \<^verbatim>\<open>ReferenceError\<close> of the property \<^verbatim>\<open>status\<close>: no
  identity comes back, the database holds no user and no refresh token afterwards,
  and nothing has been handed to the notification collaborator.
\<close>

theorem register_raises_before_create:
  "validateRegistrationData defaultEnv awaData = None \<and>
   findUserByEmailOrPhone emptyWorld (rd_email awaData) (rd_phone awaData) = None \<and>
   generateUniqueSlug emptyWorld (rd_firstName awaData) (rd_lastName awaData) = Some ''awa-kone'' \<and>
   register defaultEnv testBcrypt 1000 ''jti-1'' ''jti-2'' awaData emptyWorld =
     Some (Inl ReferenceError, emptyWorld) \<and>
   users emptyWorld = [] \<and> refresh_tokens emptyWorld = [] \<and> mails emptyWorld = []"
proof -
  have f: "findUserByEmailOrPhone emptyWorld (rd_email awaData) (rd_phone awaData) = None"
    by (simp add: findUserByEmailOrPhone_def emptyWorld_def)
  have r: "register defaultEnv testBcrypt 1000 ''jti-1'' ''jti-2'' awaData emptyWorld =
     Some (Inl ReferenceError, emptyWorld)"
    unfolding register_def awaData_valid f awaData_slug by (simp add: Let_def)
  have e: "users emptyWorld = []" "refresh_tokens emptyWorld = []" "mails emptyWorld = []"
    by (simp_all add: emptyWorld_def)
  from awaData_valid f awaData_slug r e show ?thesis by simp
qed

subsection \<open>The slug loop\<close>

lemma slugExists_segment:
  "takeWhile (\<lambda>c. c \<noteq> CHR ''-'') s = takeWhile (\<lambda>c. c \<noteq> CHR ''-'') t \<Longrightarrow>
   slugExists w s = slugExists w t"
  by (simp add: slugExists_def)

lemma segment_suffix:
  "CHR ''-'' \<in> set b \<Longrightarrow>
   takeWhile (\<lambda>c. c \<noteq> CHR ''-'') (b @ r) = takeWhile (\<lambda>c. c \<noteq> CHR ''-'') b"
  by (induction b) auto

lemma slugLoop_returns:
  assumes "slugLoop w b s n = Some y"
  shows "\<not> (CHR ''-'' \<in> set b \<and>
            takeWhile (\<lambda>c. c \<noteq> CHR ''-'') s = takeWhile (\<lambda>c. c \<noteq> CHR ''-'') b \<and>
            slugExists w b)"
proof (rule slugLoop.raw_induct
    [where P = "\<lambda>w b s n y. \<not> (CHR ''-'' \<in> set b \<and>
            takeWhile (\<lambda>c. c \<noteq> CHR ''-'') s = takeWhile (\<lambda>c. c \<noteq> CHR ''-'') b \<and>
            slugExists w b)", OF _ assms])
  fix loop :: "World \<Rightarrow> string \<Rightarrow> string \<Rightarrow> nat \<Rightarrow> string option"
  fix w b s n y
  assume IH: "\<And>w b s n y. loop w b s n = Some y \<Longrightarrow>
            \<not> (CHR ''-'' \<in> set b \<and>
               takeWhile (\<lambda>c. c \<noteq> CHR ''-'') s = takeWhile (\<lambda>c. c \<noteq> CHR ''-'') b \<and>
               slugExists w b)"
    and body: "(if slugExists w s then loop w b (b @ ''-'' @ showNat n) (n + 1) else Some s) = Some y"
  show "\<not> (CHR ''-'' \<in> set b \<and>
            takeWhile (\<lambda>c. c \<noteq> CHR ''-'') s = takeWhile (\<lambda>c. c \<noteq> CHR ''-'') b \<and>
            slugExists w b)"
  proof
    assume h: "CHR ''-'' \<in> set b \<and>
            takeWhile (\<lambda>c. c \<noteq> CHR ''-'') s = takeWhile (\<lambda>c. c \<noteq> CHR ''-'') b \<and>
            slugExists w b"
    then have "slugExists w s" using slugExists_segment [of s b w] by simp
    with body have "loop w b (b @ ''-'' @ showNat n) (n + 1) = Some y" by simp
    from IH [OF this] h segment_suffix [of b "''-'' @ showNat n"] show False by blast
  qed
qed

lemma generateUniqueSlug_returns:
  assumes "generateUniqueSlug w firstName lastName = Some y"
  shows "\<not> slugExists w (filter (\<lambda>c. isLower c \<or> isDigit c \<or> c = CHR ''-'')
                            (toLowerCase firstName @ ''-'' @ toLowerCase lastName))"
proof -
  let ?b = "filter (\<lambda>c. isLower c \<or> isDigit c \<or> c = CHR ''-'')
              (toLowerCase firstName @ ''-'' @ toLowerCase lastName)"
  have "CHR ''-'' \<in> set ?b" by simp
  with slugLoop_returns [of w ?b ?b 1 y] assms show ?thesis
    by (simp add: generateUniqueSlug_def Let_def)
qed

text \<open>
  A registration that passes validation and collides with no email or phone does not
  return, and so does not even raise, when some user's first name contains the part
  of the new slug before its first hyphen: \<^verbatim>\<open>slugExists\<close> looks at that part only,
  which the loop never changes.
\<close>

theorem register_does_not_return:
  assumes "validateRegistrationData env data = None"
    and "findUserByEmailOrPhone w (rd_email data) (rd_phone data) = None"
    and "slugExists w (filter (\<lambda>c. isLower c \<or> isDigit c \<or> c = CHR ''-'')
                            (toLowerCase (rd_firstName data) @ ''-'' @ toLowerCase (rd_lastName data)))"
  shows "register env bc now jti1 jti2 data w = None"
proof -
  have "generateUniqueSlug w (rd_firstName data) (rd_lastName data) = None"
  proof (cases "generateUniqueSlug w (rd_firstName data) (rd_lastName data)")
    case None then show ?thesis .
  next
    case (Some y)
    from generateUniqueSlug_returns [OF this] assms(3) show ?thesis by simp
  qed
  with assms(1,2) show ?thesis by (simp add: register_def Let_def)
qed

theorem register_does_not_return_witness:
  "validateRegistrationData defaultEnv waData = None \<and>
   findUserByEmailOrPhone awaWorld (rd_email waData) (rd_phone waData) = None \<and>
   slugExists awaWorld ''wa-toure'' \<and>
   register defaultEnv testBcrypt 1000 ''jti-1'' ''jti-2'' waData awaWorld = None"
proof -
  have v: "validateRegistrationData defaultEnv waData = None"
    by (simp add: validateRegistrationData_def waData_def emailRegex_def phoneRegex_def
      validatePassword_def PASSWORD_MIN_LENGTH_def PASSWORD_MAX_LENGTH_def isDigit_def
      startsWith_def isSpace_def defaultEnv_def Let_def upt_rec)
  have f: "findUserByEmailOrPhone awaWorld (rd_email waData) (rd_phone waData) = None"
    by (simp add: eval_defs waData_def)
  have s: "slugExists awaWorld (filter (\<lambda>c. isLower c \<or> isDigit c \<or> c = CHR ''-'')
                            (toLowerCase (rd_firstName waData) @ ''-'' @ toLowerCase (rd_lastName waData)))"
    by (simp add: slugExists_def waData_def eval_defs isLower_def isDigit_def sublist_code(3))
  have s': "slugExists awaWorld ''wa-toure''"
    by (simp add: slugExists_def eval_defs sublist_code(3))
  from register_does_not_return [OF v f s, of testBcrypt 1000 "''jti-1''" "''jti-2''"] v f s'
  show ?thesis by simp
qed

end
